theory Spec2Isabelle
  imports Complex_Main
begin

section \<open>Python values, exceptions and objects\<close>

text \<open>
  The repository is Python. An exception is a value of type \<open>error\<close> and a function
  that may raise returns \<open>error + 'a\<close> (\<open>Inl\<close> raises). \<open>OutsideModel\<close> is not a
  Python exception: it marks an input on which Python continues but whose behaviour is
  not embedded here (for example comparing two lists); no theorem is about
  such an input.
\<close>

datatype error =
    TypeError | ValueError | AttributeError | AssertionError
  | FileNotFoundError | IsADirectoryError | FileExistsError | PermissionError
  | RuntimeError | DecodeError | OutsideModel

fun and_then :: "error + 'a \<Rightarrow> ('a \<Rightarrow> error + 'b) \<Rightarrow> error + 'b" where
  "and_then (Inl e) f = Inl e"
| "and_then (Inr x) f = f x"

text \<open>
  The values an attribute of a \<open>Config\<close> can hold are the values JSON can carry, since
  \<open>meta.json\<close> and \<open>config.json\<close> are where they come from: \<open>None\<close>, booleans,
  unbounded integers, finite floats (a double is a rational number; NaN and the
  infinities are left out), strings, lists and dictionaries with string keys (in
  insertion order, keys distinct).
\<close>

datatype pyval =
    PNone | PBool bool | PInt int | PFloat rat | PStr string
  | PList "pyval list" | PDict "(string \<times> pyval) list"

fun truthy :: "pyval \<Rightarrow> bool" where
  "truthy PNone = False"
| "truthy (PBool b) = b"
| "truthy (PInt i) = (i \<noteq> 0)"
| "truthy (PFloat r) = (r \<noteq> 0)"
| "truthy (PStr s) = (s \<noteq> [])"
| "truthy (PList xs) = (xs \<noteq> [])"
| "truthy (PDict kvs) = (kvs \<noteq> [])"

fun py_len :: "pyval \<Rightarrow> error + int" where
  "py_len (PStr s) = Inr (int (length s))"
| "py_len (PList xs) = Inr (int (length xs))"
| "py_len (PDict kvs) = Inr (int (length kvs))"
| "py_len _ = Inl TypeError"

subsection \<open>The Config object\<close>

text \<open>
  \<open>get_meta\<close> and \<open>load\<close> set attributes by name (\<open>setattr\<close>) and test names with
  \<open>dir(self)\<close>, so a \<open>Config\<close> is its instance dictionary \<open>__dict__\<close>; what the
  classes \<open>Arguments\<close> and \<open>Config\<close> contribute is fixed and given by the tables below.
\<close>

record config =
  inst :: "string \<rightharpoonup> pyval"

text \<open>
  Modelled from the spec: \<open>UncertaintyMethods.none\<close>, the default of the field
  \<open>uncertainty_method\<close>, is defined in \<open>mubench/utils/macro.py\<close>, which is not among the
  sources. The spec does not give its text: the name of the member is used. No
  theorem below depends on its value.
\<close>

definition UncertaintyMethods_none :: string where
  "UncertaintyMethods_none = ''none''"

text \<open>The dataclass fields of \<open>Arguments\<close> with their defaults, in declaration order.\<close>

definition field_defaults :: "(string \<times> pyval) list" where
  "field_defaults =
    [(''wandb_api_key'', PNone),
     (''wandb_project'', PNone),
     (''wandb_name'', PNone),
     (''disable_wandb'', PBool False),
     (''dataset_name'', PStr ''''),
     (''dataset_splitting_random_seed'', PInt 0),
     (''data_dir'', PStr ''''),
     (''result_dir'', PStr ''./output''),
     (''ignore_preprocessed_dataset'', PBool False),
     (''overwrite_results'', PBool False),
     (''model_name'', PStr ''DNN''),
     (''dropout'', PFloat (3602879701896397 / 36028797018963968)),
     (''binary_classification_with_softmax'', PBool False),
     (''regression_with_variance'', PBool False),
     (''uncertainty_method'', PStr UncertaintyMethods_none),
     (''feature_type'', PStr ''none''),
     (''n_dnn_hidden_layers'', PInt 8),
     (''d_dnn_hidden'', PInt 128),
     (''retrain_model'', PBool False),
     (''batch_size'', PInt 32),
     (''n_epochs'', PInt 50),
     (''lr'', PFloat (7378697629483821 / 73786976294838206464)),
     (''grad_norm'', PInt 0),
     (''lr_scheduler_type'', PStr ''constant''),
     (''warmup_ratio'', PFloat (3602879701896397 / 36028797018963968)),
     (''seed'', PInt 42),
     (''debug'', PBool False),
     (''n_ensembles'', PInt 5),
     (''lr_decay'', PFloat (3602879701896397 / 36028797018963968)),
     (''n_swa_epochs'', PInt 30),
     (''k_swa_checkpoints'', PInt 30),
     (''valid_epoch_interval'', PInt 1),
     (''n_test'', PInt 1),
     (''no_cuda'', PBool False),
     (''num_workers'', PInt 0)]"

definition field_names :: "string list" where
  "field_names = map fst field_defaults"

text \<open>
  The data attributes found on the class when the instance dictionary has no entry:
  the field defaults and the three plain attributes of \<open>Config\<close>. (\<open>d_feature = None\<close>
  in the body of \<open>Config\<close> is rebound by the cached property of the same name.)
\<close>

definition class_data :: "(string \<times> pyval) list" where
  "class_data = field_defaults @
    [(''classes'', PNone), (''task_type'', PStr ''classification''), (''n_tasks'', PNone)]"

text \<open>
  How \<open>setattr\<close> treats a name defined on the class. A property without a setter
  (\<open>device\<close>, \<open>n_gpu\<close>) and the slot \<open>__weakref__\<close> refuse assignment with
  \<open>AttributeError\<close>; \<open>__class__\<close> accepts only a class and \<open>__dict__\<close> only a
  dictionary, which then replaces the instance dictionary; every other name (fields,
  methods, cached properties, which are non-data descriptors, and the remaining
  special names) is stored in the instance dictionary.
\<close>

datatype attr_kind = Plain | ReadOnly | ClassSlot | DictSlot

text \<open>The methods and cached properties, and the properties, of the two classes.\<close>

definition method_names :: "string list" where
  "method_names =
    [''__post_init__'', ''get_meta'', ''from_args'', ''save'', ''load'',
     ''_setup_devices'', ''device_str'', ''n_lbs'', ''d_feature'']"

definition property_names :: "string list" where
  "property_names = [''device'', ''n_gpu'']"

text \<open>
  The names that \<open>object\<close> and the \<open>dataclass\<close> decorator add to \<open>dir()\<close> of an
  instance (CPython 3.10).
\<close>

definition special_names :: "string list" where
  "special_names =
    [''__annotations__'', ''__dataclass_fields__'', ''__dataclass_params__'',
     ''__delattr__'', ''__dir__'', ''__doc__'', ''__eq__'', ''__format__'', ''__ge__'',
     ''__getattribute__'', ''__gt__'', ''__hash__'', ''__init__'', ''__init_subclass__'',
     ''__le__'', ''__lt__'', ''__match_args__'', ''__module__'', ''__ne__'', ''__new__'',
     ''__reduce__'', ''__reduce_ex__'', ''__repr__'', ''__setattr__'', ''__sizeof__'',
     ''__str__'', ''__subclasshook__'']"

definition class_names :: "string list" where
  "class_names = map fst class_data @ method_names @ property_names @ special_names
     @ [''__class__'', ''__dict__'', ''__weakref__'']"

definition attr_kind :: "string \<Rightarrow> attr_kind" where
  "attr_kind name =
    (if name \<in> set property_names \<or> name = ''__weakref__'' then ReadOnly
     else if name = ''__class__'' then ClassSlot
     else if name = ''__dict__'' then DictSlot
     else Plain)"

text \<open>\<open>name in dir(self)\<close>: the keys of the instance dictionary and the names of the class.\<close>

definition in_dir :: "config \<Rightarrow> string \<Rightarrow> bool" where
  "in_dir self name = (inst self name \<noteq> None \<or> name \<in> set class_names)"

text \<open>
  \<open>getattr(self, name)\<close> for a data attribute: the instance dictionary first, then the
  class. Reading a method, a property or a special name does not give a \<open>pyval\<close>; the
  functions embedded here never do that.
\<close>

definition getattr :: "config \<Rightarrow> string \<Rightarrow> error + pyval" where
  "getattr self name =
    (if attr_kind name \<noteq> Plain then Inl OutsideModel
     else case inst self name of
       Some v \<Rightarrow> Inr v
     | None \<Rightarrow>
        (case map_of class_data name of
           Some v \<Rightarrow> Inr v
         | None \<Rightarrow> if name \<in> set class_names then Inl OutsideModel else Inl AttributeError))"

text \<open>
  \<open>setattr(self, name, value)\<close> with a value that came out of a JSON file (never a
  class).
\<close>

definition setattr :: "config \<Rightarrow> string \<Rightarrow> pyval \<Rightarrow> error + config" where
  "setattr self name v =
    (case attr_kind name of
       ReadOnly \<Rightarrow> Inl AttributeError
     | ClassSlot \<Rightarrow> Inl TypeError
     | DictSlot \<Rightarrow> (case v of PDict kvs \<Rightarrow> Inr (self\<lparr>inst := map_of kvs\<rparr>) | _ \<Rightarrow> Inl TypeError)
     | Plain \<Rightarrow> Inr (self\<lparr>inst := (inst self)(name \<mapsto> v)\<rparr>))"

text \<open>
  \<open>functools.cached_property\<close>: the first read runs the function and stores the result
  in the instance dictionary under the property's name; later reads (and a \<open>setattr\<close>
  of that name) find the entry there.
\<close>

definition cached_property ::
  "string \<Rightarrow> (config \<Rightarrow> error + pyval) \<Rightarrow> config \<Rightarrow> error + (pyval \<times> config)" where
  "cached_property name func self =
    (case inst self name of
       Some v \<Rightarrow> Inr (v, self)
     | None \<Rightarrow> and_then (func self) (\<lambda>v. Inr (v, self\<lparr>inst := (inst self)(name \<mapsto> v)\<rparr>)))"

subsection \<open>Library functions used by the constructor\<close>

text \<open>\<open>os.path.join\<close> of \<open>posixpath\<close>: a component that starts with a slash restarts the path.\<close>

fun join2 :: "string \<Rightarrow> string \<Rightarrow> string" where
  "join2 path b =
    (if b \<noteq> [] \<and> hd b = CHR ''/'' then b
     else if path = [] \<or> last path = CHR ''/'' then path @ b
     else path @ ''/'' @ b)"

definition os_path_join :: "string \<Rightarrow> string list \<Rightarrow> string" where
  "os_path_join a p = foldl join2 a p"

fun as_str :: "pyval \<Rightarrow> error + string" where
  "as_str (PStr s) = Inr s"
| "as_str _ = Inl TypeError"

text \<open>\<open>str\<close> of an integer, and the formatting of a value inside an f-string.\<close>

fun digits :: "nat \<Rightarrow> string" where
  "digits n =
    (if n < 10 then [char_of (48 + n)] else digits (n div 10) @ [char_of (48 + n mod 10)])"

declare digits.simps [simp del]

definition str_int :: "int \<Rightarrow> string" where
  "str_int i = (if i < 0 then CHR ''-'' # digits (nat (- i)) else digits (nat i))"

fun py_format :: "pyval \<Rightarrow> error + string" where
  "py_format PNone = Inr ''None''"
| "py_format (PBool b) = Inr (if b then ''True'' else ''False'')"
| "py_format (PInt i) = Inr (str_int i)"
| "py_format (PStr s) = Inr s"
| "py_format _ = Inl OutsideModel"

text \<open>
  \<open>a > b\<close>: numbers (booleans count as 0 and 1) compare by value, strings
  lexicographically by code point, and every other pair of types raises \<open>TypeError\<close>,
  except two lists, whose element-wise comparison is not embedded.
\<close>

fun as_number :: "pyval \<Rightarrow> rat option" where
  "as_number (PBool b) = Some (if b then 1 else 0)"
| "as_number (PInt i) = Some (of_int i)"
| "as_number (PFloat r) = Some r"
| "as_number _ = None"

fun str_lt :: "string \<Rightarrow> string \<Rightarrow> bool" where
  "str_lt [] [] = False"
| "str_lt [] (y # ys) = True"
| "str_lt (x # xs) [] = False"
| "str_lt (x # xs) (y # ys) = ((of_char x :: nat) < of_char y \<or> (x = y \<and> str_lt xs ys))"

definition py_gt :: "pyval \<Rightarrow> pyval \<Rightarrow> error + bool" where
  "py_gt a b =
    (case (as_number a, as_number b) of
       (Some x, Some y) \<Rightarrow> Inr (y < x)
     | _ \<Rightarrow>
       (case (a, b) of
          (PStr s, PStr t) \<Rightarrow> Inr (str_lt t s)
        | (PList xs, PList ys) \<Rightarrow> Inl OutsideModel
        | _ \<Rightarrow> Inl TypeError))"

subsection \<open>Construction: Arguments.__init__ and __post_init__\<close>

text \<open>
  \<open>Arguments.__post_init__\<close>, statement by statement: the data directory is extended by
  the dataset name and the split, \<open>apply_wandb\<close> is the value of the \<open>and\<close> chain,
  \<open>n_test\<close> is raised to 20 for the two sampling methods, and \<open>k_swa_checkpoints\<close> is
  cut down to \<open>n_swa_epochs\<close>.
\<close>

definition post_init :: "config \<Rightarrow> error + config" where
  "post_init self =
    and_then (getattr self ''data_dir'') (\<lambda>data_dir.
    and_then (getattr self ''dataset_name'') (\<lambda>dataset_name.
    and_then (getattr self ''dataset_splitting_random_seed'') (\<lambda>seed.
    and_then (py_format seed) (\<lambda>seed_str.
    and_then (as_str data_dir) (\<lambda>a.
    and_then (as_str dataset_name) (\<lambda>b.
    and_then (setattr self ''data_dir'' (PStr (os_path_join a [b, ''split-'' @ seed_str]))) (\<lambda>self1.
    and_then (getattr self1 ''wandb_project'') (\<lambda>wandb_project.
    and_then (if \<not> truthy wandb_project then Inr wandb_project
              else and_then (getattr self1 ''wandb_name'') (\<lambda>wandb_name.
                if \<not> truthy wandb_name then Inr wandb_name
                else and_then (getattr self1 ''disable_wandb'') (\<lambda>disable_wandb.
                  Inr (PBool (\<not> truthy disable_wandb))))) (\<lambda>apply_wandb.
    and_then (setattr self1 ''apply_wandb'' apply_wandb) (\<lambda>self2.
    and_then (getattr self2 ''uncertainty_method'') (\<lambda>uncertainty_method.
    and_then (if uncertainty_method = PStr ''MC-Dropout'' \<or> uncertainty_method = PStr ''SWAG''
              then and_then (getattr self2 ''n_test'') (\<lambda>n_test.
                   and_then (py_gt n_test (PInt 1)) (\<lambda>more.
                   and_then (if more then getattr self2 ''n_test'' else Inr (PInt 20)) (\<lambda>n_test'.
                     setattr self2 ''n_test'' n_test')))
              else Inr self2) (\<lambda>self3.
    and_then (getattr self3 ''k_swa_checkpoints'') (\<lambda>k_swa_checkpoints.
    and_then (getattr self3 ''n_swa_epochs'') (\<lambda>n_swa_epochs.
    and_then (py_gt k_swa_checkpoints n_swa_epochs) (\<lambda>exceeds.
      if exceeds
      then and_then (getattr self3 ''n_swa_epochs'') (\<lambda>n_swa_epochs'.
             setattr self3 ''k_swa_checkpoints'' n_swa_epochs')
      else Inr self3)))))))))))))))"

text \<open>
  The generated \<open>__init__\<close>: a keyword that is not a field is a \<open>TypeError\<close>; every field
  gets the keyword's value or its default; then \<open>__post_init__\<close> runs. \<open>Config\<close> declares
  no field of its own, so \<open>Config(...)\<close> is constructed the same way.
\<close>

definition init_value :: "(string \<times> pyval) list \<Rightarrow> string \<Rightarrow> pyval \<Rightarrow> pyval" where
  "init_value kwargs name dflt = (case map_of kwargs name of Some v \<Rightarrow> v | None \<Rightarrow> dflt)"

definition Arguments_init :: "(string \<times> pyval) list \<Rightarrow> error + config" where
  "Arguments_init kwargs =
    (if \<exists>k \<in> set (map fst kwargs). k \<notin> set field_names then Inl TypeError
     else post_init
       \<lparr>inst = map_of (map (\<lambda>(name, dflt). (name, init_value kwargs name dflt))
                  field_defaults)\<rparr>)"

subsection \<open>Derived properties of Config\<close>

text \<open>
  \<open>Config.n_lbs\<close>. The last branch builds a \<open>ValueError\<close> and drops it, so the function
  falls through and returns \<open>None\<close>.
\<close>

definition n_lbs_func :: "config \<Rightarrow> error + pyval" where
  "n_lbs_func self =
    and_then (getattr self ''task_type'') (\<lambda>task_type.
      if task_type = PStr ''classification'' then
        and_then (getattr self ''classes'') (\<lambda>classes.
        and_then (py_len classes) (\<lambda>n.
        and_then (if n = 2
                  then and_then (getattr self ''binary_classification_with_softmax'')
                         (\<lambda>b. Inr (\<not> truthy b))
                  else Inr False) (\<lambda>binary_sigmoid.
          if binary_sigmoid then Inr (PInt 1)
          else and_then (getattr self ''classes'') (\<lambda>classes'.
               and_then (py_len classes') (\<lambda>n'. Inr (PInt n'))))))
      else if task_type = PStr ''regression'' then
        and_then (getattr self ''regression_with_variance'') (\<lambda>v.
          Inr (if truthy v then PInt 2 else PInt 1))
      else Inr PNone)"

definition n_lbs :: "config \<Rightarrow> error + (pyval \<times> config)" where
  "n_lbs = cached_property ''n_lbs'' n_lbs_func"

text \<open>\<open>Config.d_feature\<close>, with both of its \<open>'rdkit'\<close> tests.\<close>

definition d_feature_func :: "config \<Rightarrow> error + pyval" where
  "d_feature_func self =
    and_then (getattr self ''feature_type'') (\<lambda>feature_type.
      if feature_type = PStr ''rdkit'' then Inr (PInt 200)
      else and_then (getattr self ''feature_type'') (\<lambda>feature_type'.
        if feature_type' = PStr ''rdkit'' then Inr (PInt 1024)
        else Inr (PInt 0)))"

definition d_feature :: "config \<Rightarrow> error + (pyval \<times> config)" where
  "d_feature = cached_property ''d_feature'' d_feature_func"

section \<open>Files\<close>

subsection \<open>Arrays, dataset attributes and file contents\<close>

text \<open>
  A NumPy array is its shape and its elements in row-major order. An element is an
  integer, a finite float or NaN.
\<close>

datatype num = IntV int | FloatV rat | NaN

record ndarray =
  shape :: "nat list"
  data :: "num list"

text \<open>
  The values an attribute of a \<open>Dataset\<close> holds: \<open>None\<close>, the SMILES strings, an array,
  a list of arrays (one feature vector per molecule) and the packed instances, each
  a triple of features, labels and masks.
\<close>

datatype dval =
    DNone | DStrs "string list" | DArray ndarray | DArrays "ndarray list"
  | DInstances "(ndarray \<times> ndarray \<times> ndarray) list"

text \<open>
  A CSV file as \<open>pandas.read_csv\<close> presents it: a column is absent or a list of cells.
  A cell of the \<open>labels\<close> and \<open>masks\<close> columns is empty (\<open>Null\<close>), a text that
  \<open>ast.literal_eval\<close> accepts, given by its value, or a text that it rejects.
\<close>

datatype cell = Null | Lit pyval | Malformed

record csv =
  col_smiles :: "string list option"
  col_labels :: "cell list option"
  col_masks :: "cell list option"

text \<open>
  What a file holds: a JSON document, given by the value \<open>json.load\<close> returns for it
  and \<open>json.dump\<close> writes for that value; a CSV table; a dictionary written by
  \<open>torch.save\<close>; or anything else.
\<close>

datatype content =
    JsonFile pyval | CsvFile csv | PtFile "(string \<times> dval) list" | OtherFile

text \<open>
  The file system: the regular files with their contents, the directories, and the
  paths the operating system refuses to write (permissions). It is keyed by the path
  string as the program spells it.
\<close>

record fs =
  files :: "string \<rightharpoonup> content"
  dirs :: "string set"
  readonly :: "string set"

subsection \<open>os.path\<close>

definition rstrip_sep :: "string \<Rightarrow> string" where
  "rstrip_sep s = rev (dropWhile (\<lambda>c. c = CHR ''/'') (rev s))"

text \<open>\<open>os.path.split\<close>: the head up to the last slash, without its trailing slashes unless
  it consists of slashes only, and the tail after it.\<close>

definition os_path_split :: "string \<Rightarrow> string \<times> string" where
  "os_path_split p =
    (let tail = rev (takeWhile (\<lambda>c. c \<noteq> CHR ''/'') (rev p));
         head = take (length p - length tail) p
     in (if head \<noteq> [] \<and> (\<exists>c \<in> set head. c \<noteq> CHR ''/'') then rstrip_sep head else head, tail))"

definition os_path_dirname :: "string \<Rightarrow> string" where
  "os_path_dirname p = fst (os_path_split p)"

text \<open>\<open>str.split('/')\<close> and \<open>'/'.join\<close>.\<close>

fun split_sep :: "string \<Rightarrow> string list" where
  "split_sep [] = [[]]"
| "split_sep (c # cs) =
    (if c = CHR ''/'' then [] # split_sep cs
     else case split_sep cs of [] \<Rightarrow> [[c]] | w # ws \<Rightarrow> (c # w) # ws)"

fun join_sep :: "string list \<Rightarrow> string" where
  "join_sep [] = []"
| "join_sep [x] = x"
| "join_sep (x # y # ys) = x @ ''/'' @ join_sep (y # ys)"

text \<open>
  \<open>os.path.normpath\<close> of \<open>posixpath\<close>: empty and \<open>.\<close> components are dropped, \<open>..\<close>
  removes the component before it, exactly two leading slashes are kept.
\<close>

definition normpath_step :: "nat \<Rightarrow> string list \<Rightarrow> string \<Rightarrow> string list" where
  "normpath_step initial_slashes new_comps part =
    (if part = [] \<or> part = ''.'' then new_comps
     else if part \<noteq> ''..'' \<or> (initial_slashes = 0 \<and> new_comps = [])
             \<or> (new_comps \<noteq> [] \<and> last new_comps = ''..'')
       then new_comps @ [part]
     else if new_comps \<noteq> [] then butlast new_comps
     else new_comps)"

definition os_path_normpath :: "string \<Rightarrow> string" where
  "os_path_normpath path =
    (if path = [] then ''.''
     else
       let initial_slashes =
             (if hd path = CHR ''/''
              then (if take 2 path = ''//'' \<and> take 3 path \<noteq> ''///'' then 2 else 1)
              else 0);
           comps = foldl (normpath_step initial_slashes) [] (split_sep path);
           path' = replicate initial_slashes CHR ''/'' @ join_sep comps
       in if path' = [] then ''.'' else path')"

subsection \<open>Operations on the file system\<close>

definition isdir :: "fs \<Rightarrow> string \<Rightarrow> bool" where
  "isdir fs p = (p \<in> dirs fs)"

definition isfile :: "fs \<Rightarrow> string \<Rightarrow> bool" where
  "isfile fs p = (files fs p \<noteq> None \<and> p \<notin> dirs fs)"

definition exists_path :: "fs \<Rightarrow> string \<Rightarrow> bool" where
  "exists_path fs p = (files fs p \<noteq> None \<or> p \<in> dirs fs)"

text \<open>\<open>open(p, 'r')\<close> followed by reading the whole file.\<close>

definition open_read :: "fs \<Rightarrow> string \<Rightarrow> error + content" where
  "open_read fs p =
    (if p \<in> dirs fs then Inl IsADirectoryError
     else case files fs p of None \<Rightarrow> Inl FileNotFoundError | Some c \<Rightarrow> Inr c)"

text \<open>
  \<open>open(p, 'w')\<close> followed by writing \<open>c\<close>: the directory of \<open>p\<close> must exist (an empty
  directory part is the working directory).
\<close>

definition open_write :: "fs \<Rightarrow> string \<Rightarrow> content \<Rightarrow> error + fs" where
  "open_write fs p c =
    (if p = [] then Inl FileNotFoundError
     else if p \<in> dirs fs then Inl IsADirectoryError
     else if os_path_dirname p \<noteq> [] \<and> os_path_dirname p \<notin> dirs fs then Inl FileNotFoundError
     else if p \<in> readonly fs then Inl PermissionError
     else Inr (fs\<lparr>files := (files fs)(p \<mapsto> c)\<rparr>))"

text \<open>
  \<open>os.makedirs(d, exist_ok=True)\<close> for a normalised path \<open>d\<close>: \<open>d\<close> and the directories
  above it exist afterwards.
\<close>

definition ancestors :: "string \<Rightarrow> string list" where
  "ancestors p =
    map (\<lambda>i. if i = 0 then ''/'' else take i p) (filter (\<lambda>i. p ! i = CHR ''/'') [0..<length p])"

definition makedirs :: "fs \<Rightarrow> string \<Rightarrow> error + fs" where
  "makedirs fs d =
    (if d = [] then Inl FileNotFoundError
     else if \<exists>p \<in> set (d # ancestors d). files fs p \<noteq> None \<and> p \<notin> dirs fs then Inl FileExistsError
     else if \<exists>p \<in> set (d # ancestors d). p \<in> readonly fs \<and> p \<notin> dirs fs then Inl PermissionError
     else Inr (fs\<lparr>dirs := dirs fs \<union> set (d # ancestors d)\<rparr>))"

fun json_load :: "content \<Rightarrow> error + pyval" where
  "json_load (JsonFile v) = Inr v"
| "json_load _ = Inl DecodeError"

text \<open>\<open>d.items()\<close>: only a dictionary has the method.\<close>

fun items :: "pyval \<Rightarrow> error + (string \<times> pyval) list" where
  "items (PDict kvs) = Inr kvs"
| "items _ = Inl AttributeError"

section \<open>Config: meta file, save and load\<close>

text \<open>
  The loop of \<open>Config.get_meta\<close>: a key in \<open>dir(self)\<close> is set, any other key is
  collected in \<open>invalid_keys\<close>. An exception of \<open>setattr\<close> is not caught.
\<close>

fun get_meta_loop ::
  "config \<Rightarrow> string list \<Rightarrow> (string \<times> pyval) list \<Rightarrow> error + (config \<times> string list)" where
  "get_meta_loop self invalid_keys [] = Inr (self, invalid_keys)"
| "get_meta_loop self invalid_keys ((k, v) # rest) =
    (if in_dir self k
     then and_then (setattr self k v) (\<lambda>self'. get_meta_loop self' invalid_keys rest)
     else get_meta_loop self (invalid_keys @ [k]) rest)"

text \<open>
  \<open>Config.get_meta\<close>. The result is \<open>self\<close> and the keys named in the warning (no warning
  is logged when there are none).
\<close>

definition get_meta ::
  "fs \<Rightarrow> config \<Rightarrow> string option \<Rightarrow> string \<Rightarrow> error + (config \<times> string list)" where
  "get_meta fs self meta_dir meta_file_name =
    and_then (case meta_dir of
                Some d \<Rightarrow> Inr (PStr d)
              | None \<Rightarrow> if in_dir self ''data_dir'' then getattr self ''data_dir''
                        else Inl ValueError) (\<lambda>meta_dir.
    and_then (as_str meta_dir) (\<lambda>meta_dir.
    and_then (open_read fs (os_path_join meta_dir [meta_file_name])) (\<lambda>f.
    and_then (json_load f) (\<lambda>meta_dict.
    and_then (items meta_dict) (\<lambda>kvs.
      get_meta_loop self [] kvs)))))"

text \<open>\<open>dataclasses.asdict\<close>: the value of every field, read with \<open>getattr\<close>, by name.\<close>

fun asdict_fields :: "config \<Rightarrow> string list \<Rightarrow> error + (string \<times> pyval) list" where
  "asdict_fields self [] = Inr []"
| "asdict_fields self (name # names) =
    and_then (getattr self name) (\<lambda>v.
    and_then (asdict_fields self names) (\<lambda>rest. Inr ((name, v) # rest)))"

definition asdict :: "config \<Rightarrow> error + pyval" where
  "asdict self = and_then (asdict_fields self field_names) (\<lambda>kvs. Inr (PDict kvs))"

text \<open>
  \<open>Config.save\<close>. The handler around the writing logs the exception and raises it again,
  so the exception is the result.
\<close>

definition Config_save :: "fs \<Rightarrow> config \<Rightarrow> string \<Rightarrow> string \<Rightarrow> error + fs" where
  "Config_save fs self file_dir file_name =
    and_then (if isdir fs file_dir then Inr (os_path_join file_dir [file_name @ ''.json''])
              else if isdir fs (fst (os_path_split file_dir)) then Inr file_dir
              else Inl FileNotFoundError) (\<lambda>file_path.
    and_then (asdict self) (\<lambda>d.
      open_write fs file_path (JsonFile d)))"

text \<open>
  The loop of \<open>Config.load\<close>: an \<open>AttributeError\<close> of \<open>setattr\<close> is swallowed, any other
  exception is not.
\<close>

fun load_loop :: "config \<Rightarrow> (string \<times> pyval) list \<Rightarrow> error + config" where
  "load_loop self [] = Inr self"
| "load_loop self ((attr, v) # rest) =
    (case setattr self attr v of
       Inr self' \<Rightarrow> load_loop self' rest
     | Inl e \<Rightarrow> if e = AttributeError then load_loop self rest else Inl e)"

text \<open>
  \<open>Config.load\<close>. The test for \<open>config.json\<close> inside a directory is an \<open>assert\<close> whose
  message is a \<open>FileNotFoundError\<close> object: what is raised is \<open>AssertionError\<close>.
\<close>

definition Config_load :: "fs \<Rightarrow> config \<Rightarrow> string \<Rightarrow> string \<Rightarrow> error + config" where
  "Config_load fs self file_dir file_name =
    and_then (if isdir fs file_dir
              then (if isfile fs (os_path_join file_dir [file_name @ ''.json''])
                    then Inr (os_path_join file_dir [file_name @ ''.json''])
                    else Inl AssertionError)
              else if isfile fs file_dir then Inr file_dir
              else Inl FileNotFoundError) (\<lambda>file_path.
    and_then (open_read fs file_path) (\<lambda>f.
    and_then (json_load f) (\<lambda>config.
    and_then (items config) (\<lambda>kvs.
      load_loop self kvs))))"

section \<open>Dataset\<close>

subsection \<open>NumPy and pandas\<close>

text \<open>
  \<open>np.asarray\<close> of the list of evaluated cells, for the two forms a column of numbers or
  of lists of numbers takes: a one-dimensional array, or a two-dimensional one when all
  rows have the same length (rows of different lengths are a \<open>ValueError\<close> since NumPy
  1.24). One float makes all elements floats. Other cell values are not embedded.
\<close>

fun as_num :: "pyval \<Rightarrow> num option" where
  "as_num (PInt i) = Some (IntV i)"
| "as_num (PFloat r) = Some (FloatV r)"
| "as_num _ = None"

fun is_float :: "num \<Rightarrow> bool" where
  "is_float (IntV i) = False"
| "is_float _ = True"

fun to_float :: "num \<Rightarrow> num" where
  "to_float (IntV i) = FloatV (of_int i)"
| "to_float x = x"

definition promote :: "num list \<Rightarrow> num list" where
  "promote xs = (if list_ex is_float xs then map to_float xs else xs)"

fun as_row :: "pyval \<Rightarrow> num list option" where
  "as_row (PList xs) =
     (if list_all (\<lambda>x. as_num x \<noteq> None) xs then Some (map (\<lambda>x. the (as_num x)) xs) else None)"
| "as_row _ = None"

definition np_asarray :: "pyval list \<Rightarrow> error + ndarray" where
  "np_asarray rows =
    (if list_all (\<lambda>r. as_num r \<noteq> None) rows
     then Inr \<lparr>shape = [length rows], data = promote (map (\<lambda>r. the (as_num r)) rows)\<rparr>
     else if list_all (\<lambda>r. as_row r \<noteq> None) rows
     then (if list_all (\<lambda>r. length (the (as_row r)) = length (the (as_row (hd rows)))) rows
           then Inr \<lparr>shape = [length rows, length (the (as_row (hd rows)))],
                     data = promote (concat (map (\<lambda>r. the (as_row r)) rows))\<rparr>
           else Inl ValueError)
     else Inl OutsideModel)"

text \<open>\<open>np.ones_like(x).astype(int)\<close>; of \<open>None\<close> it is the zero-dimensional array 1.\<close>

fun ones_like_int :: "dval \<Rightarrow> error + dval" where
  "ones_like_int (DArray a) =
     Inr (DArray \<lparr>shape = shape a, data = replicate (prod_list (shape a)) (IntV 1)\<rparr>)"
| "ones_like_int DNone = Inr (DArray \<lparr>shape = [], data = [IntV 1]\<rparr>)"
| "ones_like_int _ = Inl OutsideModel"

text \<open>\<open>ast.literal_eval\<close> on a cell: an empty cell is a float NaN for pandas, which
  \<open>literal_eval\<close> rejects like a malformed text.\<close>

fun literal_eval :: "cell \<Rightarrow> error + pyval" where
  "literal_eval (Lit v) = Inr v"
| "literal_eval _ = Inl ValueError"

fun map_literal_eval :: "cell list \<Rightarrow> error + pyval list" where
  "map_literal_eval [] = Inr []"
| "map_literal_eval (c # cs) =
     and_then (literal_eval c) (\<lambda>v.
     and_then (map_literal_eval cs) (\<lambda>vs. Inr (v # vs)))"

fun pd_read_csv :: "content \<Rightarrow> error + csv" where
  "pd_read_csv (CsvFile df) = Inr df"
| "pd_read_csv _ = Inl OutsideModel"

text \<open>\<open>df.name\<close>: a column the file does not have is an \<open>AttributeError\<close>.\<close>

fun column :: "'a option \<Rightarrow> error + 'a" where
  "column (Some c) = Inr c"
| "column None = Inl AttributeError"



subsection \<open>The Dataset object\<close>

text \<open>
  \<open>Dataset.save\<close> walks \<open>self.__dict__\<close> and \<open>Dataset.load\<close> sets attributes by name, so
  a \<open>Dataset\<close> is its instance dictionary, in insertion order.
\<close>

record dataset =
  attrs :: "(string \<times> dval) list"

fun dict_set :: "string \<Rightarrow> 'v \<Rightarrow> (string \<times> 'v) list \<Rightarrow> (string \<times> 'v) list" where
  "dict_set k v [] = [(k, v)]"
| "dict_set k v ((k', v') # rest) =
     (if k' = k then (k, v) # rest else (k', v') # dict_set k v rest)"

text \<open>\<open>Dataset.__init__\<close>.\<close>

definition Dataset_init :: dataset where
  "Dataset_init =
    \<lparr>attrs = [(''_features'', DNone), (''_smiles'', DNone), (''_lbs'', DNone),
              (''_masks'', DNone), (''data_instances'', DNone)]\<rparr>"

definition dget :: "dataset \<Rightarrow> string \<Rightarrow> error + dval" where
  "dget self name =
    (case map_of (attrs self) name of Some v \<Rightarrow> Inr v | None \<Rightarrow> Inl AttributeError)"

definition dset :: "dataset \<Rightarrow> string \<Rightarrow> dval \<Rightarrow> dataset" where
  "dset self name v = self\<lparr>attrs := dict_set name v (attrs self)\<rparr>"

text \<open>
  \<open>setattr\<close> on a \<open>Dataset\<close> with a value read from a file: \<open>features\<close>, \<open>smiles\<close> and
  \<open>lbs\<close> are properties without a setter.
\<close>

definition Dataset_setattr :: "dataset \<Rightarrow> string \<Rightarrow> dval \<Rightarrow> error + dataset" where
  "Dataset_setattr self name v =
    (if name \<in> set [''features'', ''smiles'', ''lbs'', ''__weakref__''] then Inl AttributeError
     else if name \<in> set [''__class__'', ''__dict__''] then Inl TypeError
     else Inr (dset self name v))"

text \<open>
  The cached property \<open>Dataset.masks\<close>: the function, and the read that stores the
  result in the instance dictionary under \<open>masks\<close>.
\<close>

definition masks_func :: "dataset \<Rightarrow> error + dval" where
  "masks_func self =
    and_then (dget self ''_masks'') (\<lambda>m.
      if m \<noteq> DNone then Inr m
      else and_then (dget self ''_lbs'') (\<lambda>lbs. ones_like_int lbs))"

definition masks :: "dataset \<Rightarrow> error + (dval \<times> dataset)" where
  "masks self =
    (case map_of (attrs self) ''masks'' of
       Some v \<Rightarrow> Inr (v, self)
     | None \<Rightarrow> and_then (masks_func self) (\<lambda>v. Inr (v, dset self ''masks'' v)))"

fun chunks :: "nat \<Rightarrow> nat \<Rightarrow> 'a list \<Rightarrow> 'a list list" where
  "chunks 0 m xs = []"
| "chunks (Suc n) m xs = take m xs # chunks n m (drop m xs)"

text \<open>Iterating over a value: the entries of a list, the slices of an array along its
  first axis.\<close>

fun iter_rows :: "dval \<Rightarrow> error + ndarray list" where
  "iter_rows (DArrays xs) = Inr xs"
| "iter_rows (DArray a) =
     (case shape a of
        [] \<Rightarrow> Inl TypeError
      | n # rest \<Rightarrow> Inr (map (\<lambda>c. \<lparr>shape = rest, data = c\<rparr>) (chunks n (prod_list rest) (data a))))"
| "iter_rows DNone = Inl TypeError"
| "iter_rows _ = Inl OutsideModel"

text \<open>
  Modelled from the spec: \<open>pack_instances\<close> of \<open>mubench/utils/data.py\<close>, which is not among
  the sources. The spec has \<open>get_instances\<close> zip features, labels and masks into
  per-instance records.
\<close>

definition pack_instances :: "dval \<Rightarrow> dval \<Rightarrow> dval \<Rightarrow> error + dval" where
  "pack_instances features lbs msks =
    and_then (iter_rows features) (\<lambda>fs.
    and_then (iter_rows lbs) (\<lambda>ls.
    and_then (iter_rows msks) (\<lambda>ms.
      Inr (DInstances (zip fs (zip ls ms))))))"

text \<open>\<open>Dataset.get_instances\<close>; reading \<open>self.masks\<close> may cache it.\<close>

definition get_instances :: "dataset \<Rightarrow> error + (dval \<times> dataset)" where
  "get_instances self =
    and_then (dget self ''_features'') (\<lambda>features.
    and_then (dget self ''_lbs'') (\<lambda>lbs.
    and_then (masks self) (\<lambda>(msks, self').
    and_then (pack_instances features lbs msks) (\<lambda>data_instances.
      Inr (data_instances, self')))))"

text \<open>\<open>Dataset.read_csv\<close>.\<close>

definition read_csv :: "fs \<Rightarrow> dataset \<Rightarrow> string \<Rightarrow> error + dataset" where
  "read_csv fs self file_path =
    and_then (open_read fs file_path) (\<lambda>f.
    and_then (pd_read_csv f) (\<lambda>df.
    and_then (column (col_smiles df)) (\<lambda>smiles.
    and_then (column (col_labels df)) (\<lambda>labels.
    and_then (map_literal_eval labels) (\<lambda>label_values.
    and_then (np_asarray label_values) (\<lambda>lbs.
    and_then (column (col_masks df)) (\<lambda>mask_cells.
    and_then (if \<not> list_all (\<lambda>c. c = Null) mask_cells
              then and_then (map_literal_eval mask_cells) (\<lambda>mask_values.
                   and_then (np_asarray mask_values) (\<lambda>a. Inr (DArray a)))
              else Inr DNone) (\<lambda>msks.
      Inr (dset (dset (dset self ''_smiles'' (DStrs smiles)) ''_lbs'' (DArray lbs))
             ''_masks'' msks)))))))))"

text \<open>
  The attributes of the config object that \<open>prepare\<close> and \<open>create_features\<close> read, by
  their values. \<open>disable_dataset_saving\<close> and \<open>num_preprocess_workers\<close> are fields of
  the model's own configuration class, which is not among the sources.
\<close>

record prep_config =
  model_name :: string
  feature_type :: string
  data_dir :: string
  ignore_preprocessed_dataset :: bool
  disable_dataset_saving :: bool
  num_preprocess_workers :: int

text \<open>
  \<open>multiprocessing.Pool(processes)\<close>, as \<open>get_context('fork').Pool\<close> builds it: fewer than
  one process is a \<open>ValueError\<close>. The number of processes has no other effect here:
  \<open>pool.imap\<close> gives the results in the order of the input.
\<close>

definition Pool :: "int \<Rightarrow> error + int" where
  "Pool processes = (if processes < 1 then Inl ValueError else Inr processes)"

text \<open>
  \<open>Dataset.create_features\<close>. The two feature generators are functions of
  \<open>dnn/dataset/features.py\<close>, which is not among the sources: they are parameters. For
  the two fingerprints the worker pool is opened first and maps the generator over
  the SMILES strings. Without a fingerprint the features are \<open>len(self)\<close> NaNs and no
  pool is opened.
\<close>

definition smiles_list :: "dataset \<Rightarrow> error + string list" where
  "smiles_list self =
    and_then (dget self ''_smiles'') (\<lambda>s.
      case s of DStrs xs \<Rightarrow> Inr xs | DNone \<Rightarrow> Inl TypeError | _ \<Rightarrow> Inl OutsideModel)"

definition create_features ::
  "(string \<Rightarrow> ndarray) \<Rightarrow> (string \<Rightarrow> ndarray) \<Rightarrow> prep_config \<Rightarrow> dataset \<Rightarrow> error + dataset" where
  "create_features rdkit_generator morgan_generator config self =
    (if feature_type config = ''rdkit''
     then and_then (Pool (num_preprocess_workers config)) (\<lambda>pool.
          and_then (smiles_list self) (\<lambda>smiles.
            Inr (dset self ''_features'' (DArrays (map rdkit_generator smiles)))))
     else if feature_type config = ''morgan''
     then and_then (Pool (num_preprocess_workers config)) (\<lambda>pool.
          and_then (smiles_list self) (\<lambda>smiles.
            Inr (dset self ''_features'' (DArrays (map morgan_generator smiles)))))
     else and_then (smiles_list self) (\<lambda>smiles.
            Inr (dset self ''_features''
                   (DArray \<lparr>shape = [length smiles], data = replicate (length smiles) NaN\<rparr>))))"

text \<open>The test \<open>regex.match("^_[a-z]", attr)\<close>.\<close>

definition private_attr :: "string \<Rightarrow> bool" where
  "private_attr name =
    (case name of
       c1 # c2 # rest \<Rightarrow> c1 = CHR ''_'' \<and> 97 \<le> (of_char c2 :: nat) \<and> (of_char c2 :: nat) \<le> 122
     | _ \<Rightarrow> False)"

text \<open>\<open>Dataset.save\<close>: the private attributes, in the order of \<open>__dict__\<close>, go to the file.\<close>

definition Dataset_save :: "fs \<Rightarrow> dataset \<Rightarrow> string \<Rightarrow> error + fs" where
  "Dataset_save fs self file_path =
    and_then (makedirs fs (os_path_dirname (os_path_normpath file_path))) (\<lambda>fs1.
      open_write fs1 file_path (PtFile (filter (\<lambda>(name, v). private_attr name) (attrs self))))"

fun torch_load :: "content \<Rightarrow> error + (string \<times> dval) list" where
  "torch_load (PtFile attr_dict) = Inr attr_dict"
| "torch_load _ = Inl DecodeError"

fun Dataset_load_loop :: "dataset \<Rightarrow> (string \<times> dval) list \<Rightarrow> error + dataset" where
  "Dataset_load_loop self [] = Inr self"
| "Dataset_load_loop self ((name, v) # rest) =
     and_then (Dataset_setattr self name v) (\<lambda>self'. Dataset_load_loop self' rest)"

text \<open>\<open>Dataset.load\<close>.\<close>

definition Dataset_load :: "fs \<Rightarrow> dataset \<Rightarrow> string \<Rightarrow> error + dataset" where
  "Dataset_load fs self file_path =
    and_then (open_read fs file_path) (\<lambda>f.
    and_then (torch_load f) (\<lambda>attr_dict.
      Dataset_load_loop self attr_dict))"

text \<open>
  The two paths \<open>Dataset.prepare\<close> computes: the cache file \<open>preprocessed_path\<close>, whose
  directory is named after the model and, unless the feature type is \<open>'none'\<close>, the
  feature type; and the CSV file \<open>file_path\<close>.
\<close>

definition method_identifier :: "prep_config \<Rightarrow> string" where
  "method_identifier config =
    (if feature_type config \<noteq> ''none''
     then model_name config @ ''-'' @ feature_type config
     else model_name config)"

definition preprocessed_path :: "prep_config \<Rightarrow> string \<Rightarrow> string" where
  "preprocessed_path config partition_name =
    os_path_normpath (os_path_join (data_dir config)
      [''processed'', method_identifier config, partition_name @ ''.pt''])"

definition csv_file_path :: "prep_config \<Rightarrow> string \<Rightarrow> string" where
  "csv_file_path config partition_name =
    os_path_normpath (os_path_join (data_dir config) [partition_name @ ''.csv''])"

text \<open>
  \<open>Dataset.prepare\<close>. Besides the file system and the dataset it returns the reads and
  writes of dataset files it performed, in order.
\<close>

datatype event = TorchLoad string | ReadCsv string | TorchSave string

definition prepare ::
  "(string \<Rightarrow> ndarray) \<Rightarrow> (string \<Rightarrow> ndarray) \<Rightarrow> prep_config \<Rightarrow> string \<Rightarrow> fs \<Rightarrow> dataset
     \<Rightarrow> error + (fs \<times> dataset \<times> event list)" where
  "prepare rdkit_generator morgan_generator config partition_name fs self =
    (if partition_name \<notin> set [''train'', ''valid'', ''test''] then Inl AssertionError
     else
       and_then
         (if exists_path fs (preprocessed_path config partition_name)
               \<and> \<not> ignore_preprocessed_dataset config
          then and_then (Dataset_load fs self (preprocessed_path config partition_name))
                 (\<lambda>self1. Inr (fs, self1, [TorchLoad (preprocessed_path config partition_name)]))
          else
            if csv_file_path config partition_name \<noteq> []
                 \<and> exists_path fs (csv_file_path config partition_name)
            then and_then (read_csv fs self (csv_file_path config partition_name)) (\<lambda>self1.
                 and_then (create_features rdkit_generator morgan_generator config self1) (\<lambda>self2.
                   if \<not> disable_dataset_saving config
                   then and_then (Dataset_save fs self2 (preprocessed_path config partition_name))
                          (\<lambda>fs'. Inr (fs', self2,
                                   [ReadCsv (csv_file_path config partition_name),
                                    TorchSave (preprocessed_path config partition_name)]))
                   else Inr (fs, self2, [ReadCsv (csv_file_path config partition_name)])))
            else Inl FileNotFoundError)
         (\<lambda>(fs', self', trace).
            and_then (get_instances self') (\<lambda>(data_instances, self'').
              Inr (fs', dset self'' ''data_instances'' data_instances, trace))))"

subsection \<open>Example data\<close>

text \<open>
  A data directory with a CSV file of two molecules, two tasks and an empty \<open>masks\<close>
  column, a CSV file whose mask lists are shorter than its label lists, and a CSV
  file with three tasks; a configuration with the defaults \<open>DNN\<close> and \<open>none\<close>; a
  stand-in for a feature generator.
\<close>

definition example_csv :: csv where
  "example_csv =
    \<lparr>col_smiles = Some [''C'', ''CC''],
     col_labels = Some [Lit (PList [PInt 0, PInt 1]), Lit (PList [PInt 1, PInt 1])],
     col_masks = Some [Null, Null]\<rparr>"

definition short_masks_csv :: csv where
  "short_masks_csv =
    \<lparr>col_smiles = Some [''C''],
     col_labels = Some [Lit (PList [PInt 0, PInt 1])],
     col_masks = Some [Lit (PList [PInt 1])]\<rparr>"



definition wide_csv :: csv where
  "wide_csv =
    \<lparr>col_smiles = Some [''C'', ''CC''],
     col_labels = Some [Lit (PList [PInt 0, PInt 1, PInt 0]), Lit (PList [PInt 1, PInt 1, PInt 0])],
     col_masks = Some [Null, Null]\<rparr>"

definition example_fs :: fs where
  "example_fs =
    \<lparr>files = [''data/train.csv'' \<mapsto> CsvFile example_csv,
               ''data/valid.csv'' \<mapsto> CsvFile short_masks_csv,
               ''data/test.csv'' \<mapsto> CsvFile wide_csv],
     dirs = {''data''}, readonly = {}\<rparr>"

definition example_config :: prep_config where
  "example_config =
    \<lparr>model_name = ''DNN'', feature_type = ''none'', data_dir = ''data'',
     ignore_preprocessed_dataset = False, disable_dataset_saving = False,
     num_preprocess_workers = 1\<rparr>"

definition example_generator :: "string \<Rightarrow> ndarray" where
  "example_generator smiles = \<lparr>shape = [1], data = [IntV (int (length smiles))]\<rparr>"

section \<open>The GROVER trainer\<close>

text \<open>
  A tensor is its shape and its elements in row-major order. The losses are computed
  over the reals: rounding is not modelled. A scalar result is \<open>None\<close> when PyTorch
  gives NaN or an infinity for it (a division by zero).
\<close>

record tensor =
  dims :: "nat list"
  vals :: "real list"

text \<open>\<open>t.view(-1, k1, ..., kn)\<close>: the first size is what the others leave of the elements.\<close>

definition view_rows :: "tensor \<Rightarrow> nat list \<Rightarrow> error + tensor" where
  "view_rows t ks =
    (if prod_list ks = 0 \<or> length (vals t) mod prod_list ks \<noteq> 0 then Inl RuntimeError
     else Inr (t\<lparr>dims := (length (vals t) div prod_list ks) # ks\<rparr>))"

text \<open>
  \<open>F.mse_loss(input, target)\<close> with its default reduction \<open>'mean'\<close>: one number, the mean
  of the squared differences over all elements. Tensors of different shapes are
  broadcast by PyTorch; that is not embedded.
\<close>

definition mse_loss :: "tensor \<Rightarrow> tensor \<Rightarrow> error + real option" where
  "mse_loss input target =
    (if dims input \<noteq> dims target then Inl OutsideModel
     else if vals input = [] then Inr None
     else Inr (Some (sum_list (map2 (\<lambda>x y. (x - y)\<^sup>2) (vals input) (vals target))
                      / real (length (vals input)))))"

text \<open>\<open>torch.sum(loss * masks) / masks.sum()\<close> for a scalar \<open>loss\<close>.\<close>

definition sum_masked :: "real option \<Rightarrow> tensor \<Rightarrow> real option" where
  "sum_masked loss msks =
    (case loss of
       None \<Rightarrow> None
     | Some l \<Rightarrow>
         if sum_list (vals msks) = 0 then None
         else Some (sum_list (map (\<lambda>m. l * m) (vals msks)) / sum_list (vals msks)))"

text \<open>
  The attributes of \<open>GroverConfig\<close> (not among the sources) that the two loss functions
  read, by their values, and the batch, of which they read \<open>masks\<close>.
\<close>

record grover_config =
  cfg_task_type :: string
  cfg_binary_classification_with_softmax :: bool
  cfg_regression_with_variance :: bool
  cfg_n_lbs :: nat
  cfg_n_tasks :: nat
  cfg_dist_coff :: real

record batch =
  batch_masks :: tensor

text \<open>\<open>Trainer.get_distance_loss\<close>.\<close>

definition get_distance_loss ::
  "grover_config \<Rightarrow> tensor \<Rightarrow> tensor \<Rightarrow> 'a batch_scheme \<Rightarrow> error + real option" where
  "get_distance_loss config atom_logits bond_logits batch =
    and_then (if cfg_task_type config = ''classification''
                 \<and> cfg_binary_classification_with_softmax config
              then and_then (view_rows atom_logits [cfg_n_lbs config]) (\<lambda>a.
                   and_then (view_rows bond_logits [cfg_n_lbs config]) (\<lambda>b.
                   and_then (view_rows (batch_masks batch) []) (\<lambda>m. Inr (a, b, m))))
              else Inr (atom_logits, bond_logits, batch_masks batch)) (\<lambda>(a, b, msks).
    and_then (if cfg_task_type config = ''regression'' \<and> cfg_regression_with_variance config
              then and_then (view_rows a [cfg_n_tasks config, 2]) (\<lambda>a'.
                   and_then (view_rows b [cfg_n_tasks config, 2]) (\<lambda>b'. Inr (a', b')))
              else Inr (a, b)) (\<lambda>(a', b').
    and_then (mse_loss a' b') (\<lambda>loss.
      Inr (sum_masked loss msks))))"

text \<open>
  \<open>Trainer.get_loss\<close>. \<open>super().get_loss\<close> is the loss of the base trainer, which is not
  among the sources: it is a parameter.
\<close>

definition add_scalar :: "real option \<Rightarrow> real option \<Rightarrow> real option" where
  "add_scalar x y = (case (x, y) of (Some a, Some b) \<Rightarrow> Some (a + b) | _ \<Rightarrow> None)"

definition get_loss ::
  "(tensor \<Rightarrow> 'a batch_scheme \<Rightarrow> error + real option) \<Rightarrow> grover_config \<Rightarrow> tensor list
     \<Rightarrow> 'a batch_scheme \<Rightarrow> error + real option" where
  "get_loss super_get_loss config logits batch =
    (case logits of
       [atom_logits, bond_logits] \<Rightarrow>
         and_then (super_get_loss atom_logits batch) (\<lambda>atom_loss.
         and_then (super_get_loss bond_logits batch) (\<lambda>bond_loss.
         and_then (get_distance_loss config atom_logits bond_logits batch) (\<lambda>dist.
           Inr (add_scalar (add_scalar atom_loss bond_loss)
                  (map_option (\<lambda>d. cfg_dist_coff config * d) dist)))))
     | _ \<Rightarrow> Inl AssertionError)"

text \<open>
  The consistency term in the words of the specification: the squared differences of
  the valid entries (mask 1), averaged over the valid entries.
\<close>

definition spec_masked_mse :: "real list \<Rightarrow> real list \<Rightarrow> real list \<Rightarrow> real" where
  "spec_masked_mse atom bond msks =
    sum_list (map (\<lambda>(m, x, y). m * (x - y)\<^sup>2) (zip msks (zip atom bond))) / sum_list msks"

text \<open>A regression batch of two molecules, the second one without a label.\<close>

definition example_grover_config :: grover_config where
  "example_grover_config =
    \<lparr>cfg_task_type = ''regression'', cfg_binary_classification_with_softmax = False,
     cfg_regression_with_variance = False, cfg_n_lbs = 1, cfg_n_tasks = 1, cfg_dist_coff = 1\<rparr>"

definition example_atom_logits :: tensor where
  "example_atom_logits = \<lparr>dims = [2, 1], vals = [0, 2]\<rparr>"

definition example_bond_logits :: tensor where
  "example_bond_logits = \<lparr>dims = [2, 1], vals = [0, 0]\<rparr>"

definition example_batch :: batch where
  "example_batch = \<lparr>batch_masks = \<lparr>dims = [2, 1], vals = [1, 0]\<rparr>\<rparr>"

text \<open>What \<open>getattr\<close> gives for a field: the instance's value, or else the default.\<close>

definition field_value :: "config \<Rightarrow> string \<Rightarrow> pyval" where
  "field_value self name =
    (case inst self name of Some v \<Rightarrow> v | None \<Rightarrow> the (map_of field_defaults name))"

section \<open>Properties of Config\<close>

lemma getattr_field_total:
  "name \<in> set (map fst class_data) \<Longrightarrow> \<exists>v. getattr self name = Inr v"
  by (auto simp: getattr_def attr_kind_def property_names_def class_data_def
      field_defaults_def split: option.splits)

text \<open>
  Claim C10, amended. On a \<open>Config\<close> that holds nothing under \<open>d_feature\<close> in its instance
  dictionary (the property has not been read, and the name has not been set), the
  property returns 200 when \<open>feature_type\<close> is \<open>'rdkit'\<close> and 0 for every other value,
  \<open>'morgan'\<close> included, and stores what it returned. On a \<open>Config\<close> that holds a value
  under \<open>d_feature\<close> it returns that value. The function of the property never returns
  1024.
\<close>

theorem d_feature_spec:
  "(inst self ''d_feature'' = None \<longrightarrow>
      (\<exists>ft. getattr self ''feature_type'' = Inr ft
        \<and> d_feature self =
            Inr (PInt (if ft = PStr ''rdkit'' then 200 else 0),
                 self\<lparr>inst := (inst self)(''d_feature'' \<mapsto>
                    PInt (if ft = PStr ''rdkit'' then 200 else 0))\<rparr>)))
   \<and> (\<forall>stored. inst self ''d_feature'' = Some stored \<longrightarrow> d_feature self = Inr (stored, self))
   \<and> d_feature_func self \<noteq> Inr (PInt 1024)"
proof -
  obtain ft where ft: "getattr self ''feature_type'' = Inr ft"
    using getattr_field_total [of "''feature_type''" self]
    by (auto simp: class_data_def field_defaults_def)
  have f: "d_feature_func self = Inr (PInt (if ft = PStr ''rdkit'' then 200 else 0))"
    by (simp add: d_feature_func_def ft)
  then have "d_feature_func self \<noteq> Inr (PInt 1024)" by simp
  moreover have "inst self ''d_feature'' = None \<longrightarrow>
      (\<exists>ft. getattr self ''feature_type'' = Inr ft
        \<and> d_feature self =
            Inr (PInt (if ft = PStr ''rdkit'' then 200 else 0),
                 self\<lparr>inst := (inst self)(''d_feature'' \<mapsto>
                    PInt (if ft = PStr ''rdkit'' then 200 else 0))\<rparr>))"
    using ft f by (auto simp: d_feature_def cached_property_def)
  moreover have "\<forall>stored. inst self ''d_feature'' = Some stored \<longrightarrow> d_feature self = Inr (stored, self)"
    by (simp add: d_feature_def cached_property_def)
  ultimately show ?thesis by blast
qed

theorem d_feature_spec_witness:
  "d_feature \<lparr>inst = [''feature_type'' \<mapsto> PStr ''morgan'']\<rparr> =
     Inr (PInt 0, \<lparr>inst = [''feature_type'' \<mapsto> PStr ''morgan'', ''d_feature'' \<mapsto> PInt 0]\<rparr>)
   \<and> d_feature \<lparr>inst = [''feature_type'' \<mapsto> PStr ''morgan'', ''d_feature'' \<mapsto> PInt 200]\<rparr> =
     Inr (PInt 200, \<lparr>inst = [''feature_type'' \<mapsto> PStr ''morgan'', ''d_feature'' \<mapsto> PInt 200]\<rparr>)"
  using d_feature_spec [of "\<lparr>inst = [''feature_type'' \<mapsto> PStr ''morgan'']\<rparr>"]
    d_feature_spec [of "\<lparr>inst = [''feature_type'' \<mapsto> PStr ''morgan'', ''d_feature'' \<mapsto> PInt 200]\<rparr>"]
  by (auto simp: getattr_def attr_kind_def property_names_def)

text \<open>
  Claim C10 as stated fails on a \<open>Config\<close> that holds a value under \<open>d_feature\<close>: the name
  is in \<open>dir(self)\<close>, so \<open>get_meta\<close> on a meta file with the entry \<open>d_feature: 1024\<close>
  stores it, and for the feature type \<open>'morgan'\<close> the property then returns 1024, not 0.
\<close>

theorem d_feature_stored_counterexample:
  "and_then (get_meta \<lparr>files = [''data/meta.json'' \<mapsto> JsonFile (PDict [(''d_feature'', PInt 1024)])],
        dirs = {''data''}, readonly = {}\<rparr>
       \<lparr>inst = [''feature_type'' \<mapsto> PStr ''morgan'']\<rparr> (Some ''data'') ''meta.json'')
     (\<lambda>(self1, invalid_keys).
   and_then (getattr self1 ''feature_type'') (\<lambda>feature_type.
   and_then (d_feature self1) (\<lambda>(value, self2).
     Inr (feature_type, value))))
   = Inr (PStr ''morgan'', PInt 1024)"
  by code_simp

text \<open>
  Claim C2, amended. On a \<open>Config\<close> that holds nothing under \<open>n_lbs\<close> in its instance
  dictionary (the property has not been read, and the name has not been set): for
  task type \<open>'classification'\<close> with a class list \<open>cs\<close>, the property returns 1 when \<open>cs\<close>
  has exactly two entries and \<open>binary_classification_with_softmax\<close> is false, and the
  number of classes otherwise; for task type \<open>'regression'\<close> it returns 2 when
  \<open>regression_with_variance\<close> is true and 1 otherwise; and it stores what it returned.
  On a \<open>Config\<close> that holds a value under \<open>n_lbs\<close> it returns that value.
\<close>

theorem n_lbs_spec:
  "(inst self ''n_lbs'' = None \<longrightarrow>
      (getattr self ''task_type'' = Inr (PStr ''classification'') \<longrightarrow>
          getattr self ''classes'' = Inr (PList cs) \<longrightarrow>
          getattr self ''binary_classification_with_softmax'' = Inr b \<longrightarrow>
          n_lbs self =
            Inr (PInt (if length cs = 2 \<and> \<not> truthy b then 1 else int (length cs)),
                 self\<lparr>inst := (inst self)(''n_lbs'' \<mapsto>
                    PInt (if length cs = 2 \<and> \<not> truthy b then 1 else int (length cs)))\<rparr>))
       \<and> (getattr self ''task_type'' = Inr (PStr ''regression'') \<longrightarrow>
          getattr self ''regression_with_variance'' = Inr v \<longrightarrow>
          n_lbs self =
            Inr (PInt (if truthy v then 2 else 1),
                 self\<lparr>inst := (inst self)(''n_lbs'' \<mapsto> PInt (if truthy v then 2 else 1))\<rparr>)))
   \<and> (\<forall>stored. inst self ''n_lbs'' = Some stored \<longrightarrow> n_lbs self = Inr (stored, self))"
  by (auto simp: n_lbs_def cached_property_def n_lbs_func_def)

theorem n_lbs_spec_witness:
  "n_lbs \<lparr>inst = [''classes'' \<mapsto> PList [PStr ''0'', PStr ''1'']]\<rparr> =
     Inr (PInt 1, \<lparr>inst = [''classes'' \<mapsto> PList [PStr ''0'', PStr ''1''], ''n_lbs'' \<mapsto> PInt 1]\<rparr>)
   \<and> n_lbs \<lparr>inst = [''task_type'' \<mapsto> PStr ''regression'',
                      ''regression_with_variance'' \<mapsto> PBool True]\<rparr> =
     Inr (PInt 2, \<lparr>inst = [''task_type'' \<mapsto> PStr ''regression'',
            ''regression_with_variance'' \<mapsto> PBool True, ''n_lbs'' \<mapsto> PInt 2]\<rparr>)
   \<and> n_lbs \<lparr>inst = [''classes'' \<mapsto> PList [PStr ''0'', PStr ''1'', PStr ''2''], ''n_lbs'' \<mapsto> PInt 1]\<rparr> =
     Inr (PInt 1, \<lparr>inst = [''classes'' \<mapsto> PList [PStr ''0'', PStr ''1'', PStr ''2''], ''n_lbs'' \<mapsto> PInt 1]\<rparr>)"
  using n_lbs_spec [of "\<lparr>inst = [''classes'' \<mapsto> PList [PStr ''0'', PStr ''1'']]\<rparr>"
      "[PStr ''0'', PStr ''1'']" "PBool False" "PBool False"]
    n_lbs_spec [of "\<lparr>inst = [''task_type'' \<mapsto> PStr ''regression'',
                              ''regression_with_variance'' \<mapsto> PBool True]\<rparr>"
      "[]" "PBool False" "PBool True"]
    n_lbs_spec [of "\<lparr>inst = [''classes'' \<mapsto> PList [PStr ''0'', PStr ''1'', PStr ''2''], ''n_lbs'' \<mapsto> PInt 1]\<rparr>"
      "[]" "PBool False" "PBool False"]
  by (simp add: getattr_def attr_kind_def property_names_def class_data_def field_defaults_def)

text \<open>
  Claim C2 as stated fails on a \<open>Config\<close> whose \<open>n_lbs\<close> has been read before: with two
  classes the first read stores 1; after \<open>binary_classification_with_softmax\<close> is set
  to true the task type is \<open>'classification'\<close>, the class list has two entries, softmax
  is on, and the property still returns 1, not the number of classes.
\<close>

theorem n_lbs_cached_counterexample:
  "and_then (n_lbs \<lparr>inst = [''classes'' \<mapsto> PList [PStr ''0'', PStr ''1'']]\<rparr>) (\<lambda>(first, self1).
   and_then (setattr self1 ''binary_classification_with_softmax'' (PBool True)) (\<lambda>self2.
   and_then (getattr self2 ''task_type'') (\<lambda>task_type.
   and_then (getattr self2 ''classes'') (\<lambda>classes.
   and_then (getattr self2 ''binary_classification_with_softmax'') (\<lambda>softmax.
   and_then (n_lbs self2) (\<lambda>(second, self3).
     Inr (task_type, classes, softmax, second)))))))
   = Inr (PStr ''classification'', PList [PStr ''0'', PStr ''1''], PBool True, PInt 1)"
  by code_simp

lemma and_then_InrE:
  assumes "and_then m f = Inr y"
  obtains x where "m = Inr x" and "f x = Inr y"
  using assms by (cases m) auto

lemma str_lt_irrefl: "\<not> str_lt s s"
  by (induction s) auto

lemma py_gt_self: "py_gt a b = Inr c \<Longrightarrow> py_gt b b = Inr False"
  by (cases a; cases b) (auto simp: py_gt_def str_lt_irrefl split: if_splits)

lemma attr_kind_plain [simp]:
  "attr_kind ''data_dir'' = Plain" "attr_kind ''apply_wandb'' = Plain"
  "attr_kind ''n_test'' = Plain" "attr_kind ''k_swa_checkpoints'' = Plain"
  "attr_kind ''n_swa_epochs'' = Plain"
  by (simp_all add: attr_kind_def property_names_def)

lemma getattr_setattr_other:
  "setattr self name v = Inr self' \<Longrightarrow> attr_kind name = Plain \<Longrightarrow> name' \<noteq> name \<Longrightarrow>
   getattr self' name' = getattr self name'"
  by (auto simp: setattr_def getattr_def)

lemma getattr_setattr_same:
  "setattr self name v = Inr self' \<Longrightarrow> attr_kind name = Plain \<Longrightarrow> getattr self' name = Inr v"
  by (auto simp: setattr_def getattr_def)

lemma post_init_steps:
  assumes "post_init self0 = Inr self"
  obtains self1 self2 self3 d a k n c where
    "setattr self0 ''data_dir'' d = Inr self1"
    "setattr self1 ''apply_wandb'' a = Inr self2"
    "self3 = self2 \<or> (\<exists>t. setattr self2 ''n_test'' t = Inr self3)"
    "getattr self3 ''k_swa_checkpoints'' = Inr k"
    "getattr self3 ''n_swa_epochs'' = Inr n"
    "py_gt k n = Inr c"
    "(if c then setattr self3 ''k_swa_checkpoints'' n else Inr self3) = Inr self"
proof -
  from assms show ?thesis
    unfolding post_init_def
    apply (elim and_then_InrE)
    subgoal premises p for data_dir dataset_name seed seed_str a b self1 wp aw self2 um self3 k n c
    proof -
      have s3: "self3 = self2 \<or> (\<exists>t. setattr self2 ''n_test'' t = Inr self3)"
        using p(12) by (auto split: if_splits elim!: and_then_InrE)
      have fin: "(if c then setattr self3 ''k_swa_checkpoints'' n else Inr self3) = Inr self"
        using p(16) p(14) by (auto split: if_splits elim!: and_then_InrE)
      show ?thesis
        using that [OF p(7) p(10) s3 p(13) p(14) p(15) fin] .
    qed
    done
qed


lemma init_k: "getattr \<lparr>inst = map_of (map (\<lambda>(name, dflt). (name, init_value kwargs name dflt))
                  field_defaults)\<rparr> ''k_swa_checkpoints''
   = Inr (init_value kwargs ''k_swa_checkpoints'' (PInt 30))"
  by (simp add: getattr_def field_defaults_def)

lemma init_n: "getattr \<lparr>inst = map_of (map (\<lambda>(name, dflt). (name, init_value kwargs name dflt))
                  field_defaults)\<rparr> ''n_swa_epochs''
   = Inr (init_value kwargs ''n_swa_epochs'' (PInt 30))"
  by (simp add: getattr_def field_defaults_def)

lemma post_init_k_swa:
  assumes "post_init self0 = Inr self"
    and k0: "getattr self0 ''k_swa_checkpoints'' = Inr k0"
    and n0: "getattr self0 ''n_swa_epochs'' = Inr n0"
  shows "getattr self ''n_swa_epochs'' = Inr n0
    \<and> getattr self ''k_swa_checkpoints'' = Inr (if py_gt k0 n0 = Inr True then n0 else k0)
    \<and> py_gt (if py_gt k0 n0 = Inr True then n0 else k0) n0 = Inr False"
proof -
  from assms(1) obtain self1 self2 self3 d a k n c where
    s1: "setattr self0 ''data_dir'' d = Inr self1" and
    s2: "setattr self1 ''apply_wandb'' a = Inr self2" and
    s3: "self3 = self2 \<or> (\<exists>t. setattr self2 ''n_test'' t = Inr self3)" and
    k: "getattr self3 ''k_swa_checkpoints'' = Inr k" and
    n: "getattr self3 ''n_swa_epochs'' = Inr n" and
    c: "py_gt k n = Inr c" and
    r: "(if c then setattr self3 ''k_swa_checkpoints'' n else Inr self3) = Inr self"
    by (rule post_init_steps)
  have "getattr self2 ''k_swa_checkpoints'' = Inr k0" "getattr self2 ''n_swa_epochs'' = Inr n0"
    using s1 s2 k0 n0 by (simp_all add: getattr_setattr_other)
  with s3 have "getattr self3 ''k_swa_checkpoints'' = Inr k0" "getattr self3 ''n_swa_epochs'' = Inr n0"
    by (auto simp: getattr_setattr_other)
  with k n have eq: "k = k0" "n = n0" by simp_all
  show ?thesis
  proof (cases c)
    case True
    with r have "setattr self3 ''k_swa_checkpoints'' n0 = Inr self" by (simp add: eq)
    then show ?thesis
      using True c n py_gt_self [OF c]
      by (simp add: getattr_setattr_other getattr_setattr_same eq)
  next
    case False
    with r have "self = self3" by simp
    then show ?thesis using False c k n by (simp add: eq)
  qed
qed

text \<open>
  Claim C8. When construction completes, \<open>n_swa_epochs\<close> is as given, \<open>k_swa_checkpoints\<close>
  is \<open>n_swa_epochs\<close> if the given value exceeded it and the given value otherwise, and
  \<open>k_swa_checkpoints > n_swa_epochs\<close> is false.
\<close>

theorem k_swa_checkpoints_clamped:
  assumes "Arguments_init kwargs = Inr self"
  shows "\<exists>k n. getattr self ''k_swa_checkpoints'' = Inr k \<and> getattr self ''n_swa_epochs'' = Inr n
    \<and> py_gt k n = Inr False
    \<and> n = init_value kwargs ''n_swa_epochs'' (PInt 30)
    \<and> k = (if py_gt (init_value kwargs ''k_swa_checkpoints'' (PInt 30))
                     (init_value kwargs ''n_swa_epochs'' (PInt 30)) = Inr True
            then init_value kwargs ''n_swa_epochs'' (PInt 30)
            else init_value kwargs ''k_swa_checkpoints'' (PInt 30))"
proof -
  from assms have p: "post_init \<lparr>inst = map_of (map (\<lambda>(name, dflt). (name, init_value kwargs name dflt))
                  field_defaults)\<rparr> = Inr self"
    by (simp add: Arguments_init_def split: if_splits)
  from post_init_k_swa [OF p init_k init_n] show ?thesis by simp
qed

theorem k_swa_checkpoints_clamped_witness:
  "and_then (Arguments_init [(''k_swa_checkpoints'', PInt 50), (''n_swa_epochs'', PInt 10)])
     (\<lambda>self. getattr self ''k_swa_checkpoints'') = Inr (PInt 10)"
proof -
  have "\<not> isl (Arguments_init [(''k_swa_checkpoints'', PInt 50), (''n_swa_epochs'', PInt 10)])"
    by code_simp
  then obtain self where
    s: "Arguments_init [(''k_swa_checkpoints'', PInt 50), (''n_swa_epochs'', PInt 10)] = Inr self"
    by (cases "Arguments_init [(''k_swa_checkpoints'', PInt 50), (''n_swa_epochs'', PInt 10)]") auto
  from k_swa_checkpoints_clamped [OF s] show ?thesis
    by (auto simp: s init_value_def py_gt_def)
qed

section \<open>Properties of the Config files\<close>

lemma field_names_plain: "name \<in> set field_names \<Longrightarrow> attr_kind name = Plain"
  by (auto simp: field_names_def field_defaults_def attr_kind_def property_names_def)

lemma getattr_field: 
  assumes "name \<in> set field_names"
  shows "getattr self name = Inr (field_value self name)"
proof -
  from assms obtain d where "map_of field_defaults name = Some d"
    by (auto simp: field_names_def field_defaults_def)
  then show ?thesis
    using field_names_plain [OF assms]
    by (simp add: getattr_def field_value_def class_data_def split: option.splits)
qed

lemma asdict_fields_ok:
  "set names \<subseteq> set field_names \<Longrightarrow>
   asdict_fields self names = Inr (map (\<lambda>n. (n, field_value self n)) names)"
  by (induction names) (simp_all add: getattr_field)

lemma asdict_ok: "asdict self = Inr (PDict (map (\<lambda>n. (n, field_value self n)) field_names))"
  by (simp add: asdict_def asdict_fields_ok)

lemma setattr_plain:
  "attr_kind name = Plain \<Longrightarrow> setattr self name v = Inr (self\<lparr>inst := (inst self)(name \<mapsto> v)\<rparr>)"
  by (simp add: setattr_def)

lemma load_loop_plain:
  "\<forall>k \<in> set (map fst kvs). attr_kind k = Plain \<Longrightarrow>
   load_loop self kvs = Inr (self\<lparr>inst := inst self ++ map_of (rev kvs)\<rparr>)"
proof (induction kvs arbitrary: self)
  case Nil
  then show ?case by simp
next
  case (Cons kv kvs)
  obtain k v where kv: "kv = (k, v)" by (cases kv)
  from Cons.prems have k: "attr_kind k = Plain" and rest: "\<forall>k \<in> set (map fst kvs). attr_kind k = Plain"
    by (simp_all add: kv)
  have 1: "load_loop self (kv # kvs) = load_loop (self\<lparr>inst := (inst self)(k \<mapsto> v)\<rparr>) kvs"
    by (simp add: kv setattr_plain [OF k])
  have 2: "inst (self\<lparr>inst := (inst self)(k \<mapsto> v)\<rparr>) ++ map_of (rev kvs)
      = inst self ++ map_of (rev (kv # kvs))"
    by (auto simp: fun_eq_iff map_add_def kv split: option.splits)
  show ?case
    unfolding 1 Cons.IH [OF rest] 2 by simp
qed

lemma map_of_rev_tabulate:
  "map_of (rev (map (\<lambda>n. (n, f n)) names)) n = (if n \<in> set names then Some (f n) else None)"
  by (induction names) (auto simp: map_add_def split: option.splits)

lemma save_result:
  assumes "Config_save fs self file_dir file_name = Inr fs'"
  obtains file_path where
    "fs' = fs\<lparr>files := (files fs)(file_path \<mapsto> JsonFile (PDict (map (\<lambda>n. (n, field_value self n)) field_names)))\<rparr>"
    "file_path \<notin> dirs fs"
    "if isdir fs file_dir then file_path = os_path_join file_dir [file_name @ ''.json'']
     else file_path = file_dir"
  using assms
  by (auto simp: Config_save_def asdict_ok open_write_def split: if_splits)

text \<open>
  Claim C5, amended. When \<open>Config.save\<close> succeeds, \<open>Config.load\<close> with the same arguments,
  on any \<open>Config\<close> object, succeeds and gives every saved attribute, that is every
  dataclass field, the value it has in the saved object. The attributes that are not
  dataclass fields (\<open>classes\<close>, \<open>task_type\<close>, \<open>n_tasks\<close>, a stored \<open>n_lbs\<close> or \<open>d_feature\<close>)
  are not saved: they stay as they are in the object that loads. The values are those
  of \<open>pyval\<close>, which JSON writes and reads back unchanged.
\<close>

theorem save_load_roundtrip:
  assumes "Config_save fs self file_dir file_name = Inr fs'"
  shows "\<exists>loaded. Config_load fs' other file_dir file_name = Inr loaded
     \<and> (\<forall>name \<in> set field_names. getattr loaded name = getattr self name)
     \<and> (\<forall>name. name \<notin> set field_names \<longrightarrow> inst loaded name = inst other name)"
proof -
  let ?kvs = "map (\<lambda>n. (n, field_value self n)) field_names"
  from assms obtain file_path where
    fs': "fs' = fs\<lparr>files := (files fs)(file_path \<mapsto> JsonFile (PDict ?kvs))\<rparr>" and
    nd: "file_path \<notin> dirs fs" and
    fp: "if isdir fs file_dir then file_path = os_path_join file_dir [file_name @ ''.json'']
         else file_path = file_dir"
    by (rule save_result)
  have plain: "\<forall>k \<in> set (map fst ?kvs). attr_kind k = Plain"
    by (simp add: field_names_plain)
  have "Config_load fs' other file_dir file_name = load_loop other ?kvs"
    using fp nd by (auto simp: Config_load_def fs' isdir_def isfile_def open_read_def split: if_splits)
  then have l: "Config_load fs' other file_dir file_name =
      Inr (other\<lparr>inst := inst other ++ map_of (rev ?kvs)\<rparr>)"
    by (simp only: load_loop_plain [OF plain])
  have "getattr (other\<lparr>inst := inst other ++ map_of (rev ?kvs)\<rparr>) name = getattr self name"
    if "name \<in> set field_names" for name
  proof -
    have "field_value (other\<lparr>inst := inst other ++ map_of (rev ?kvs)\<rparr>) name = field_value self name"
      using that by (simp add: field_value_def map_add_def map_of_rev_tabulate)
    then show ?thesis
      by (simp add: getattr_field [OF that])
  qed
  moreover have "(inst other ++ map_of (rev ?kvs)) name = inst other name"
    if "name \<notin> set field_names" for name
    using that by (simp add: map_add_def map_of_rev_tabulate)
  ultimately show ?thesis using l by simp
qed

theorem save_load_roundtrip_witness:
  "and_then (Config_save \<lparr>files = Map.empty, dirs = {''out''}, readonly = {}\<rparr>
               \<lparr>inst = [''seed'' \<mapsto> PInt 7, ''classes'' \<mapsto> PList [PInt 0, PInt 1]]\<rparr> ''out'' ''config'')
     (\<lambda>fs'. and_then (Config_load fs' \<lparr>inst = Map.empty\<rparr> ''out'' ''config'')
       (\<lambda>loaded. getattr loaded ''seed'')) = Inr (PInt 7)"
proof -
  let ?fs = "\<lparr>files = Map.empty, dirs = {''out''}, readonly = {}\<rparr>"
  let ?self = "\<lparr>inst = [''seed'' \<mapsto> PInt 7, ''classes'' \<mapsto> PList [PInt 0, PInt 1]]\<rparr>"
  have "\<not> isl (Config_save ?fs ?self ''out'' ''config'')"
    by code_simp
  then obtain fs' where s: "Config_save ?fs ?self ''out'' ''config'' = Inr fs'"
    by (cases "Config_save ?fs ?self ''out'' ''config''") auto
  from save_load_roundtrip [OF s, of "\<lparr>inst = Map.empty\<rparr>"] obtain loaded where
    l: "Config_load fs' \<lparr>inst = Map.empty\<rparr> ''out'' ''config'' = Inr loaded" and
    g: "\<forall>name \<in> set field_names. getattr loaded name = getattr ?self name"
    by blast
  have "''seed'' \<in> set field_names"
    by (simp add: field_names_def field_defaults_def)
  with g have "getattr loaded ''seed'' = getattr ?self ''seed''" by blast
  then show ?thesis
    by (simp add: s l getattr_def attr_kind_def property_names_def)
qed

text \<open>
  Claim C5 as stated fails for the attributes that are not dataclass fields: a new
  \<open>Config\<close> that loads the file saved from a \<open>Config\<close> with two classes has \<open>classes\<close>
  \<open>None\<close>.
\<close>

theorem save_load_not_saved_counterexample:
  "and_then (Arguments_init []) (\<lambda>fresh.
   and_then (setattr fresh ''classes'' (PList [PInt 0, PInt 1])) (\<lambda>original.
   and_then (Config_save \<lparr>files = Map.empty, dirs = {''out''}, readonly = {}\<rparr>
               original ''out'' ''config'') (\<lambda>fs'.
   and_then (Config_load fs' fresh ''out'' ''config'') (\<lambda>loaded.
   and_then (getattr original ''classes'') (\<lambda>classes.
   and_then (getattr loaded ''classes'') (\<lambda>classes'.
     Inr (classes, classes')))))))
   = Inr (PList [PInt 0, PInt 1], PNone)"
  by code_simp

text \<open>
  Missing files: a path that does not exist makes \<open>Config.load\<close> raise
  \<open>FileNotFoundError\<close>, and so does a missing meta file in \<open>Config.get_meta\<close>; a
  directory without the \<open>config.json\<close> makes \<open>Config.load\<close> raise \<open>AssertionError\<close>.
\<close>

lemma Config_load_missing_path:
  "\<not> exists_path fs file_dir \<Longrightarrow> Config_load fs self file_dir file_name = Inl FileNotFoundError"
  by (simp add: Config_load_def isdir_def isfile_def exists_path_def)

lemma Config_load_missing_config_json:
  "isdir fs file_dir \<Longrightarrow> \<not> exists_path fs (os_path_join file_dir [file_name @ ''.json'']) \<Longrightarrow>
   Config_load fs self file_dir file_name = Inl AssertionError"
  by (simp add: Config_load_def isdir_def isfile_def exists_path_def)

lemma get_meta_missing_file:
  "\<not> exists_path fs (os_path_join d [meta_file_name]) \<Longrightarrow>
   get_meta fs self (Some d) meta_file_name = Inl FileNotFoundError"
  by (simp add: get_meta_def open_read_def exists_path_def)

lemma in_dir_data_dir: "in_dir self ''data_dir''"
  by (simp add: in_dir_def class_names_def class_data_def field_defaults_def)

lemma get_meta_missing_file_data_dir:
  "getattr self ''data_dir'' = Inr (PStr d) \<Longrightarrow> \<not> exists_path fs (os_path_join d [meta_file_name]) \<Longrightarrow>
   get_meta fs self None meta_file_name = Inl FileNotFoundError"
  by (simp add: get_meta_def open_read_def exists_path_def in_dir_data_dir)

text \<open>
  Claim C3 says that \<open>Config.load\<close> raises \<open>FileNotFoundError\<close> when the \<open>config.json\<close>
  inside a given directory does not exist. On the existing directory \<open>out\<close> that holds
  no \<open>config.json\<close> it raises \<open>AssertionError\<close>.
\<close>

theorem load_directory_without_config_raises_AssertionError:
  "Config_load \<lparr>files = Map.empty, dirs = {''out''}, readonly = {}\<rparr> \<lparr>inst = Map.empty\<rparr>
     ''out'' ''config'' = Inl AssertionError"
  by (simp add: Config_load_def isdir_def isfile_def)

lemma setattr_plain_in_dir:
  "attr_kind k = Plain \<Longrightarrow> in_dir self k \<Longrightarrow> in_dir (self\<lparr>inst := (inst self)(k \<mapsto> v)\<rparr>) = in_dir self"
  by (auto simp: in_dir_def fun_eq_iff)

lemma get_meta_loop_plain:
  "\<forall>k \<in> set (map fst kvs). in_dir self k \<longrightarrow> attr_kind k = Plain \<Longrightarrow>
   get_meta_loop self invalid kvs =
     Inr (self\<lparr>inst := inst self ++ map_of (rev (filter (\<lambda>kv. in_dir self (fst kv)) kvs))\<rparr>,
          invalid @ filter (\<lambda>k. \<not> in_dir self k) (map fst kvs))"
proof (induction kvs arbitrary: self invalid)
  case Nil
  then show ?case by simp
next
  case (Cons kv kvs)
  obtain k v where kv: "kv = (k, v)" by (cases kv)
  show ?case
  proof (cases "in_dir self k")
    case True
    with Cons.prems have k: "attr_kind k = Plain" by (simp add: kv)
    let ?self' = "self\<lparr>inst := (inst self)(k \<mapsto> v)\<rparr>"
    have d: "in_dir ?self' = in_dir self"
      by (rule setattr_plain_in_dir [OF k True])
    have rest: "\<forall>k \<in> set (map fst kvs). in_dir ?self' k \<longrightarrow> attr_kind k = Plain"
      using Cons.prems by (simp add: d)
    have 1: "get_meta_loop self invalid (kv # kvs) = get_meta_loop ?self' invalid kvs"
      by (simp add: kv True setattr_plain [OF k])
    have 2: "inst ?self' ++ map_of (rev (filter (\<lambda>kv. in_dir self (fst kv)) kvs))
        = inst self ++ map_of (rev (filter (\<lambda>kv. in_dir self (fst kv)) (kv # kvs)))"
      using True by (auto simp: fun_eq_iff map_add_def kv split: option.splits)
    have 3: "filter (\<lambda>k. \<not> in_dir self k) (map fst (kv # kvs)) = filter (\<lambda>k. \<not> in_dir self k) (map fst kvs)"
      using True by (simp add: kv)
    show ?thesis
      unfolding 1 Cons.IH [OF rest] d 2 3 by simp
  next
    case False
    have rest: "\<forall>k \<in> set (map fst kvs). in_dir self k \<longrightarrow> attr_kind k = Plain"
      using Cons.prems by simp
    show ?thesis
      using False by (simp add: kv Cons.IH [OF rest])
  qed
qed


text \<open>
  Claim C9, amended. Let the meta file hold a dictionary none of whose keys names a
  read-only property (\<open>device\<close>, \<open>n_gpu\<close>) or one of the slots \<open>__class__\<close>,
  \<open>__dict__\<close>, \<open>__weakref__\<close>. Then \<open>Config.get_meta\<close> does not raise, every key in
  \<open>dir(self)\<close> has the file's value afterwards, every other attribute is unchanged,
  and the keys not in \<open>dir(self)\<close> are exactly the ones named in the warning.
\<close>

theorem get_meta_sets_known_keys:
  assumes "meta_dir = Some d \<or> (meta_dir = None \<and> getattr self ''data_dir'' = Inr (PStr d))"
    and "open_read fs (os_path_join d [meta_file_name]) = Inr (JsonFile (PDict kvs))"
    and "distinct (map fst kvs)"
    and "\<forall>k \<in> set (map fst kvs). in_dir self k \<longrightarrow> attr_kind k = Plain"
  shows "\<exists>self'. get_meta fs self meta_dir meta_file_name =
            Inr (self', filter (\<lambda>k. \<not> in_dir self k) (map fst kvs))
     \<and> (\<forall>(k, v) \<in> set kvs. in_dir self k \<longrightarrow> inst self' k = Some v)
     \<and> (\<forall>k. k \<notin> set (map fst kvs) \<or> \<not> in_dir self k \<longrightarrow> inst self' k = inst self k)"
proof -
  let ?known = "filter (\<lambda>kv. in_dir self (fst kv)) kvs"
  let ?self' = "self\<lparr>inst := inst self ++ map_of (rev ?known)\<rparr>"
  have "get_meta fs self meta_dir meta_file_name = get_meta_loop self [] kvs"
    using assms(1,2) by (auto simp: get_meta_def in_dir_data_dir)
  then have r: "get_meta fs self meta_dir meta_file_name =
      Inr (?self', filter (\<lambda>k. \<not> in_dir self k) (map fst kvs))"
    by (simp add: get_meta_loop_plain [OF assms(4)])
  have dk: "distinct (map fst (rev ?known))"
    using assms(3) by (simp add: rev_map [symmetric] distinct_map_filter)
  have "inst ?self' k = Some v" if "(k, v) \<in> set kvs" "in_dir self k" for k v
  proof -
    from that have "(k, v) \<in> set (rev ?known)" by simp
    with dk have "map_of (rev ?known) k = Some v" by (rule map_of_is_SomeI)
    then show ?thesis by (simp add: map_add_def)
  qed
  moreover have "inst ?self' k = inst self k" if "k \<notin> set (map fst kvs) \<or> \<not> in_dir self k" for k
  proof -
    from that have "k \<notin> fst ` set (rev ?known)" by auto
    then have "map_of (rev ?known) k = None" by (simp add: map_of_eq_None_iff)
    then show ?thesis by (simp add: map_add_def)
  qed
  ultimately show ?thesis using r by auto
qed

theorem get_meta_sets_known_keys_witness:
  "and_then (get_meta \<lparr>files = [''data/meta.json'' \<mapsto>
        JsonFile (PDict [(''task_type'', PStr ''regression''), (''n_atoms'', PInt 9)])],
      dirs = {''data''}, readonly = {}\<rparr> \<lparr>inst = [''data_dir'' \<mapsto> PStr ''data'']\<rparr> None ''meta.json'')
     (\<lambda>(self', invalid_keys). Inr (inst self' ''task_type'', inst self' ''n_atoms'', invalid_keys))
   = Inr (Some (PStr ''regression''), None, [''n_atoms''])"
proof -
  let ?kvs = "[(''task_type'', PStr ''regression''), (''n_atoms'', PInt 9)]"
  let ?fs = "\<lparr>files = [''data/meta.json'' \<mapsto> JsonFile (PDict ?kvs)],
      dirs = {''data''}, readonly = {}\<rparr>"
  let ?self = "\<lparr>inst = [''data_dir'' \<mapsto> PStr ''data'']\<rparr>"
  have d1: "in_dir ?self ''task_type''"
    by code_simp
  have d2: "\<not> in_dir ?self ''n_atoms''"
    by code_simp
  have h1: "None = Some ''data'' \<or> (None = None \<and> getattr ?self ''data_dir'' = Inr (PStr ''data''))"
    by (simp add: getattr_def attr_kind_def property_names_def)
  have h2: "open_read ?fs (os_path_join ''data'' [''meta.json'']) = Inr (JsonFile (PDict ?kvs))"
    by (simp add: open_read_def os_path_join_def)
  have h3: "distinct (map fst ?kvs)"
    by simp
  have h4: "\<forall>k \<in> set (map fst ?kvs). in_dir ?self k \<longrightarrow> attr_kind k = Plain"
    by (simp add: attr_kind_def property_names_def)
  from get_meta_sets_known_keys [OF h1 h2 h3 h4] obtain self' where
    r: "get_meta ?fs ?self None ''meta.json'' = Inr (self', filter (\<lambda>k. \<not> in_dir ?self k) (map fst ?kvs))"
    and known: "\<forall>(k, v) \<in> set ?kvs. in_dir ?self k \<longrightarrow> inst self' k = Some v"
    and other: "\<forall>k. k \<notin> set (map fst ?kvs) \<or> \<not> in_dir ?self k \<longrightarrow> inst self' k = inst ?self k"
    by blast
  have f: "filter (\<lambda>k. \<not> in_dir ?self k) (map fst ?kvs) = [''n_atoms'']"
    using d1 d2 by simp
  from known d1 have a: "inst self' ''task_type'' = Some (PStr ''regression'')"
    by simp
  from other d2 have "inst self' ''n_atoms'' = inst ?self ''n_atoms''"
    by blast
  then have b: "inst self' ''n_atoms'' = None"
    by simp
  show ?thesis
    unfolding r f by (simp add: a b)
qed

text \<open>
  Claim C9 as stated fails: \<open>device\<close> names an attribute of every \<open>Config\<close>, and a meta
  file with that key makes \<open>get_meta\<close> raise \<open>AttributeError\<close> instead of setting it.
\<close>

theorem get_meta_read_only_key_counterexample:
  "in_dir \<lparr>inst = map_of field_defaults\<rparr> ''device''
   \<and> get_meta \<lparr>files = [''data/meta.json'' \<mapsto> JsonFile (PDict [(''device'', PStr ''cpu'')])],
        dirs = {''data''}, readonly = {}\<rparr>
       \<lparr>inst = map_of field_defaults\<rparr> (Some ''data'') ''meta.json'' = Inl AttributeError"
  by (simp add: in_dir_def class_names_def property_names_def get_meta_def open_read_def
      os_path_join_def setattr_def attr_kind_def)

section \<open>Properties of Dataset\<close>

text \<open>A CSV file without a \<open>masks\<close> column cannot be read: \<open>df.masks\<close> raises.\<close>

lemma read_csv_without_masks_column:
  assumes "files fs q = Some (CsvFile df)" and "q \<notin> dirs fs"
    and "col_smiles df = Some smiles" and "col_labels df = Some labels"
    and "map_literal_eval labels = Inr vs" and "np_asarray vs = Inr a"
    and "col_masks df = None"
  shows "read_csv fs self q = Inl AttributeError"
  using assms by (simp add: read_csv_def open_read_def)

lemma Dataset_save_result:
  assumes "Dataset_save fs self q = Inr fs'"
  shows "files fs' = (files fs)(q \<mapsto> PtFile (filter (\<lambda>(name, v). private_attr name) (attrs self)))"
    and "q \<notin> dirs fs'"
  using assms
  by (auto simp: Dataset_save_def makedirs_def open_write_def split: if_splits elim!: and_then_InrE)

lemma prepare_cases:
  assumes "prepare rg mg config p fs self = Inr (fs', self', trace)"
  obtains
    (cached) self1 di self2 where
      "exists_path fs (preprocessed_path config p)" "\<not> ignore_preprocessed_dataset config"
      "Dataset_load fs self (preprocessed_path config p) = Inr self1"
      "get_instances self1 = Inr (di, self2)"
      "fs' = fs" "self' = dset self2 ''data_instances'' di"
      "trace = [TorchLoad (preprocessed_path config p)]"
  | (saved) self1 self2 di self3 where
      "\<not> (exists_path fs (preprocessed_path config p) \<and> \<not> ignore_preprocessed_dataset config)"
      "read_csv fs self (csv_file_path config p) = Inr self1"
      "create_features rg mg config self1 = Inr self2"
      "\<not> disable_dataset_saving config"
      "Dataset_save fs self2 (preprocessed_path config p) = Inr fs'"
      "get_instances self2 = Inr (di, self3)"
      "self' = dset self3 ''data_instances'' di"
      "trace = [ReadCsv (csv_file_path config p), TorchSave (preprocessed_path config p)]"
  | (unsaved) self1 self2 di self3 where
      "\<not> (exists_path fs (preprocessed_path config p) \<and> \<not> ignore_preprocessed_dataset config)"
      "read_csv fs self (csv_file_path config p) = Inr self1"
      "create_features rg mg config self1 = Inr self2"
      "disable_dataset_saving config"
      "get_instances self2 = Inr (di, self3)"
      "fs' = fs" "self' = dset self3 ''data_instances'' di"
      "trace = [ReadCsv (csv_file_path config p)]"
proof -
  from assms have p: "p \<in> set [''train'', ''valid'', ''test'']"
    by (auto simp: prepare_def split: if_splits)
  let ?first = "(if exists_path fs (preprocessed_path config p) \<and> \<not> ignore_preprocessed_dataset config
          then and_then (Dataset_load fs self (preprocessed_path config p))
                 (\<lambda>self1. Inr (fs, self1, [TorchLoad (preprocessed_path config p)]))
          else
            if csv_file_path config p \<noteq> [] \<and> exists_path fs (csv_file_path config p)
            then and_then (read_csv fs self (csv_file_path config p)) (\<lambda>self1.
                 and_then (create_features rg mg config self1) (\<lambda>self2.
                   if \<not> disable_dataset_saving config
                   then and_then (Dataset_save fs self2 (preprocessed_path config p))
                          (\<lambda>fs'. Inr (fs', self2,
                                   [ReadCsv (csv_file_path config p),
                                    TorchSave (preprocessed_path config p)]))
                   else Inr (fs, self2, [ReadCsv (csv_file_path config p)])))
            else Inl FileNotFoundError)"
  have u: "prepare rg mg config p fs self =
      and_then ?first (\<lambda>(fs', self', trace).
            and_then (get_instances self') (\<lambda>(data_instances, self'').
              Inr (fs', dset self'' ''data_instances'' data_instances, trace)))"
    using p by (simp add: prepare_def)
  from assms [unfolded u] obtain x where
    x: "?first = Inr x"
    and fin: "(\<lambda>(fs', self', trace).
            and_then (get_instances self') (\<lambda>(data_instances, self'').
              Inr (fs', dset self'' ''data_instances'' data_instances, trace))) x = Inr (fs', self', trace)"
    by (rule and_then_InrE)
  obtain fsx sx tx where xx: "x = (fsx, sx, tx)" by (cases x)
  from fin obtain di s3 where gi: "get_instances sx = Inr (di, s3)" and
    res: "fs' = fsx" "self' = dset s3 ''data_instances'' di" "trace = tx"
    by (auto simp: xx elim!: and_then_InrE)
  show ?thesis
  proof (cases "exists_path fs (preprocessed_path config p) \<and> \<not> ignore_preprocessed_dataset config")
    case True
    with x xx have "Dataset_load fs self (preprocessed_path config p) = Inr sx"
      "fsx = fs" "tx = [TorchLoad (preprocessed_path config p)]"
      by (auto elim!: and_then_InrE)
    with True gi res show ?thesis by (intro cached) auto
  next
    case False
    with x obtain self1 self2 where
      rc: "read_csv fs self (csv_file_path config p) = Inr self1" and
      cf: "create_features rg mg config self1 = Inr self2" and
      sv: "(if \<not> disable_dataset_saving config
                   then and_then (Dataset_save fs self2 (preprocessed_path config p))
                          (\<lambda>fs'. Inr (fs', self2,
                                   [ReadCsv (csv_file_path config p),
                                    TorchSave (preprocessed_path config p)]))
                   else Inr (fs, self2, [ReadCsv (csv_file_path config p)])) = Inr x"
      by (auto split: if_splits elim!: and_then_InrE)
    show ?thesis
    proof (cases "disable_dataset_saving config")
      case True
      with sv xx have "fsx = fs" "sx = self2" "tx = [ReadCsv (csv_file_path config p)]" by auto
      with False rc cf True gi res show ?thesis by (intro unsaved) auto
    next
      case nd: False
      with sv xx have "Dataset_save fs self2 (preprocessed_path config p) = Inr fsx" "sx = self2"
        "tx = [ReadCsv (csv_file_path config p), TorchSave (preprocessed_path config p)]"
        by (auto elim!: and_then_InrE)
      with False rc cf nd gi res show ?thesis by (intro saved) auto
    qed
  qed
qed


text \<open>
  A missing CSV file: when the cache is not used and the CSV file of the partition does
  not exist, \<open>Dataset.prepare\<close> raises \<open>FileNotFoundError\<close>.
\<close>

lemma prepare_missing_csv:
  assumes "p \<in> set [''train'', ''valid'', ''test'']"
    and "\<not> (exists_path fs (preprocessed_path config p) \<and> \<not> ignore_preprocessed_dataset config)"
    and "\<not> exists_path fs (csv_file_path config p)"
  shows "prepare rg mg config p fs self = Inl FileNotFoundError"
  using assms by (auto simp: prepare_def)

text \<open>
  Claim C4, amended. Whenever \<open>Dataset.prepare\<close> returns, every cache file it loaded
  or saved, and every file it changed, is at the normalised path
  \<open>data_dir/processed/ID/partition.pt\<close>, where \<open>ID\<close> is the model name alone when the
  feature type is \<open>'none'\<close> and \<open>model_name-feature_type\<close> otherwise; and it either
  loaded that file, or read the CSV file and saved that file, or read the CSV file
  with saving disabled.
\<close>

theorem prepare_cache_path:
  assumes "prepare rg mg config p fs self = Inr (fs', self', trace)"
  shows "(\<forall>q. TorchLoad q \<in> set trace \<or> TorchSave q \<in> set trace \<or> files fs' q \<noteq> files fs q \<longrightarrow>
            q = os_path_normpath (os_path_join (data_dir config)
                  [''processed'',
                   if feature_type config = ''none'' then model_name config
                   else model_name config @ ''-'' @ feature_type config,
                   p @ ''.pt'']))
       \<and> (trace = [TorchLoad (preprocessed_path config p)]
          \<or> trace = [ReadCsv (csv_file_path config p), TorchSave (preprocessed_path config p)]
          \<or> (disable_dataset_saving config \<and> trace = [ReadCsv (csv_file_path config p)]))"
proof -
  have pp: "preprocessed_path config p =
      os_path_normpath (os_path_join (data_dir config)
                  [''processed'',
                   if feature_type config = ''none'' then model_name config
                   else model_name config @ ''-'' @ feature_type config,
                   p @ ''.pt''])"
    by (simp add: preprocessed_path_def method_identifier_def)
  from assms show ?thesis
  proof (cases rule: prepare_cases)
    case (cached self1 di self2)
    then show ?thesis using pp by auto
  next
    case (saved self1 self2 di self3)
    from Dataset_save_result(1) [OF saved(5)] saved(8) show ?thesis
      using pp by (auto split: if_splits)
  next
    case (unsaved self1 self2 di self3)
    then show ?thesis by auto
  qed
qed

lemma example_paths:
  "preprocessed_path example_config ''train'' = ''data/processed/DNN/train.pt''"
  "preprocessed_path (example_config\<lparr>feature_type := ''rdkit''\<rparr>) ''train''
     = ''data/processed/DNN-rdkit/train.pt''"
  by code_simp+

theorem prepare_cache_path_witness:
  "and_then (prepare example_generator example_generator (example_config\<lparr>feature_type := ''rdkit''\<rparr>)
       ''train'' example_fs Dataset_init) (\<lambda>(fs', self', trace). Inr trace)
     = Inr [ReadCsv ''data/train.csv'', TorchSave ''data/processed/DNN-rdkit/train.pt'']
   \<and> ''data/processed/DNN-rdkit/train.pt'' =
       os_path_normpath (os_path_join ''data'' [''processed'', ''DNN-rdkit'', ''train.pt''])"
proof -
  let ?c = "example_config\<lparr>feature_type := ''rdkit''\<rparr>"
  have ev: "and_then (prepare example_generator example_generator ?c
       ''train'' example_fs Dataset_init) (\<lambda>(fs', self', trace). Inr trace)
     = Inr [ReadCsv ''data/train.csv'', TorchSave ''data/processed/DNN-rdkit/train.pt'']"
    by code_simp
  then obtain fs' self' trace where
    r: "prepare example_generator example_generator ?c ''train'' example_fs Dataset_init
        = Inr (fs', self', trace)"
    by (cases "prepare example_generator example_generator ?c ''train'' example_fs Dataset_init")
       auto
  with ev have t: "trace = [ReadCsv ''data/train.csv'', TorchSave ''data/processed/DNN-rdkit/train.pt'']"
    by simp
  from prepare_cache_path [OF r] t
  have "''data/processed/DNN-rdkit/train.pt'' =
      os_path_normpath (os_path_join (data_dir ?c)
        [''processed'',
         if feature_type ?c = ''none'' then model_name ?c else model_name ?c @ ''-'' @ feature_type ?c,
         ''train'' @ ''.pt''])"
    by simp
  then show ?thesis
    using ev by (simp add: example_config_def)
qed

text \<open>
  Claim C4 as stated fails for the feature type \<open>'none'\<close> (the default): the cache file
  is \<open>data/processed/DNN/train.pt\<close>, while the path of the claim is
  \<open>data/processed/DNN-none/train.pt\<close>.
\<close>

theorem prepare_cache_path_counterexample:
  "and_then (prepare example_generator example_generator example_config ''train''
       example_fs Dataset_init) (\<lambda>(fs', self', trace). Inr trace)
     = Inr [ReadCsv ''data/train.csv'', TorchSave ''data/processed/DNN/train.pt'']
   \<and> os_path_normpath (os_path_join (data_dir example_config)
        [''processed'', model_name example_config @ ''-'' @ feature_type example_config, ''train.pt''])
     = ''data/processed/DNN-none/train.pt''"
  by code_simp

text \<open>A fingerprint with fewer than one worker: the pool cannot be opened.\<close>

lemma create_features_without_workers:
  assumes "feature_type config = ''rdkit'' \<or> feature_type config = ''morgan''"
    and "num_preprocess_workers config < 1"
  shows "create_features rg mg config self = Inl ValueError"
  using assms by (auto simp: create_features_def Pool_def)

lemma read_csv_attrs:
  assumes "read_csv fs Dataset_init q = Inr s"
  shows "\<exists>S L M. attrs s = [(''_features'', DNone), (''_smiles'', S), (''_lbs'', L),
              (''_masks'', M), (''data_instances'', DNone)]"
  using assms
  by (auto simp: read_csv_def Dataset_init_def dset_def elim!: and_then_InrE)

lemma create_features_attrs:
  assumes "create_features rg mg config s = Inr s2"
    and "attrs s = [(''_features'', F0), (''_smiles'', S), (''_lbs'', L),
              (''_masks'', M), (''data_instances'', D)]"
  shows "\<exists>F. attrs s2 = [(''_features'', F), (''_smiles'', S), (''_lbs'', L),
              (''_masks'', M), (''data_instances'', D)]"
  using assms
  by (auto simp: create_features_def dset_def split: if_splits elim!: and_then_InrE)

lemma private_attr_names [simp]:
  "private_attr ''_features''" "private_attr ''_smiles''" "private_attr ''_lbs''"
  "private_attr ''_masks''" "\<not> private_attr ''data_instances''"
  by (simp_all add: private_attr_def)

lemma reload_private:
  assumes "attrs s2 = [(''_features'', F), (''_smiles'', S), (''_lbs'', L),
              (''_masks'', M), (''data_instances'', DNone)]"
  shows "Dataset_load_loop Dataset_init (filter (\<lambda>(name, v). private_attr name) (attrs s2)) = Inr s2"
  using assms
  by (cases s2) (simp add: Dataset_init_def Dataset_setattr_def dset_def)

lemma map_of_dict_set: "map_of (dict_set k v d) = (map_of d)(k \<mapsto> v)"
  by (induction d) (auto simp: fun_eq_iff)

lemma map_of_dset: "map_of (attrs (dset s k v)) = (map_of (attrs s))(k \<mapsto> v)"
  by (simp add: dset_def map_of_dict_set)

lemma dget_dset: "dget (dset s k v) k' = (if k' = k then Inr v else dget s k')"
  by (simp add: dget_def map_of_dset)

lemma Dataset_load_loop_map:
  "Dataset_load_loop s ad = Inr s' \<Longrightarrow> map_of (attrs s') = map_of (attrs s) ++ map_of (rev ad)"
proof (induction ad arbitrary: s)
  case Nil
  then show ?case by simp
next
  case (Cons kv ad)
  obtain k v where kv: "kv = (k, v)" by (cases kv)
  from Cons.prems obtain s1 where s1: "Dataset_setattr s k v = Inr s1"
    and r: "Dataset_load_loop s1 ad = Inr s'"
    by (auto simp: kv elim: and_then_InrE)
  from s1 have "s1 = dset s k v" by (auto simp: Dataset_setattr_def split: if_splits)
  then have "map_of (attrs s1) = (map_of (attrs s))(k \<mapsto> v)" by (simp add: map_of_dset)
  with Cons.IH [OF r] show ?case
    by (auto simp: kv fun_eq_iff map_add_def split: option.splits)
qed

lemma Dataset_load_loop_total:
  "Dataset_load_loop s ad = Inr s' \<Longrightarrow> \<exists>t'. Dataset_load_loop t ad = Inr t'"
proof (induction ad arbitrary: s t)
  case Nil
  then show ?case by simp
next
  case (Cons kv ad)
  obtain k v where kv: "kv = (k, v)" by (cases kv)
  from Cons.prems obtain s1 where s1: "Dataset_setattr s k v = Inr s1"
    and r: "Dataset_load_loop s1 ad = Inr s'"
    by (auto simp: kv elim: and_then_InrE)
  from s1 have "Dataset_setattr t k v = Inr (dset t k v)"
    by (auto simp: Dataset_setattr_def split: if_splits)
  with Cons.IH [OF r, of "dset t k v"] show ?case by (simp add: kv)
qed

lemma get_instances_cached:
  assumes "get_instances s = Inr (di, s')"
    and "dget t ''_features'' = dget s ''_features''" and "dget t ''_lbs'' = dget s ''_lbs''"
    and "map_of (attrs t) ''masks'' = map_of (attrs s') ''masks''"
  shows "get_instances t = Inr (di, t)"
proof -
  from assms(1) obtain f l m where
    f: "dget s ''_features'' = Inr f" and l: "dget s ''_lbs'' = Inr l" and
    m: "masks s = Inr (m, s')" and p: "pack_instances f l m = Inr di"
    unfolding get_instances_def by (auto elim!: and_then_InrE split: prod.splits)
  from m have "map_of (attrs s') ''masks'' = Some m"
    by (auto simp: masks_def map_of_dset split: option.splits elim!: and_then_InrE)
  with assms(4) have "masks t = Inr (m, t)"
    by (simp add: masks_def)
  with f l p assms(2,3) show ?thesis
    by (simp add: get_instances_def)
qed

lemma get_instances_keeps:
  assumes "get_instances s = Inr (di, s')" and "k \<noteq> ''masks''"
  shows "map_of (attrs s') k = map_of (attrs s) k"
  using assms
  by (auto simp: get_instances_def masks_def map_of_dset
      elim!: and_then_InrE split: prod.splits option.splits)

lemma get_instances_keeps_masks:
  assumes "get_instances s = Inr (di, s')" and "map_of (attrs s) ''masks'' = Some w"
  shows "map_of (attrs s') ''masks'' = Some w"
  using assms
  by (auto simp: get_instances_def masks_def map_of_dset
      elim!: and_then_InrE split: prod.splits option.splits)


lemma prepare_again_new:
  assumes "prepare rg mg config p fs Dataset_init = Inr (fs1, self1, trace1)"
    and "\<not> ignore_preprocessed_dataset config"
    and "\<not> disable_dataset_saving config"
  shows "prepare rg' mg' config p fs1 Dataset_init =
           Inr (fs1, self1, [TorchLoad (preprocessed_path config p)])"
proof -
  from assms(1) have p: "p \<in> set [''train'', ''valid'', ''test'']"
    by (auto simp: prepare_def split: if_splits)
  from assms(1) show ?thesis
  proof (cases rule: prepare_cases)
    case (cached self1' di self2)
    then show ?thesis using p by (simp add: prepare_def)
  next
    case (saved s1 s2 di s3)
    from read_csv_attrs [OF saved(2)] obtain S L M where
      "attrs s1 = [(''_features'', DNone), (''_smiles'', S), (''_lbs'', L),
              (''_masks'', M), (''data_instances'', DNone)]" by blast
    from create_features_attrs [OF saved(3) this] obtain F where
      a2: "attrs s2 = [(''_features'', F), (''_smiles'', S), (''_lbs'', L),
              (''_masks'', M), (''data_instances'', DNone)]" by blast
    have f: "files fs1 (preprocessed_path config p) =
        Some (PtFile (filter (\<lambda>(name, v). private_attr name) (attrs s2)))"
      and nd: "preprocessed_path config p \<notin> dirs fs1"
      using Dataset_save_result [OF saved(5)] by simp_all
    have ex: "exists_path fs1 (preprocessed_path config p)"
      by (simp add: exists_path_def f)
    have ld: "Dataset_load fs1 Dataset_init (preprocessed_path config p) = Inr s2"
      by (simp add: Dataset_load_def open_read_def nd f reload_private [OF a2])
    show ?thesis
      using p ex assms(2) ld saved(6,7) by (simp add: prepare_def)
  next
    case (unsaved s1 s2 di s3)
    with assms(3) show ?thesis by simp
  qed
qed

lemma prepare_again_same:
  assumes "prepare rg mg config p fs Dataset_init = Inr (fs1, self1, trace1)"
    and "\<not> ignore_preprocessed_dataset config"
    and "\<not> disable_dataset_saving config"
  shows "\<exists>self2. prepare rg' mg' config p fs1 self1 =
           Inr (fs1, self2, [TorchLoad (preprocessed_path config p)])
         \<and> dget self2 ''data_instances'' = dget self1 ''data_instances''"
proof -
  let ?pp = "preprocessed_path config p"
  from assms(1) have p: "p \<in> set [''train'', ''valid'', ''test'']"
    by (auto simp: prepare_def split: if_splits)
  have again: "prepare rg mg config p fs1 Dataset_init = Inr (fs1, self1, [TorchLoad ?pp])"
    by (rule prepare_again_new [OF assms])
  from again obtain s1 di s2 where
    ex: "exists_path fs1 ?pp" and
    ld: "Dataset_load fs1 Dataset_init ?pp = Inr s1" and
    gi: "get_instances s1 = Inr (di, s2)" and
    self1: "self1 = dset s2 ''data_instances'' di"
    by (cases rule: prepare_cases) auto
  from ld obtain f ad where
    f: "open_read fs1 ?pp = Inr f" and ad: "torch_load f = Inr ad" and
    l0: "Dataset_load_loop Dataset_init ad = Inr s1"
    unfolding Dataset_load_def by (auto elim!: and_then_InrE)
  from Dataset_load_loop_total [OF l0, of self1] obtain t1 where
    l1: "Dataset_load_loop self1 ad = Inr t1" by blast
  have m0: "map_of (attrs s1) = map_of (attrs Dataset_init) ++ map_of (rev ad)"
    by (rule Dataset_load_loop_map [OF l0])
  have m1: "map_of (attrs t1) = map_of (attrs self1) ++ map_of (rev ad)"
    by (rule Dataset_load_loop_map [OF l1])
  have ms: "map_of (attrs self1) = (map_of (attrs s2))(''data_instances'' \<mapsto> di)"
    by (simp add: self1 map_of_dset)
  have keep: "map_of (attrs t1) k = map_of (attrs s1) k"
    if "k \<noteq> ''masks''" "k \<noteq> ''data_instances''" for k
  proof -
    have "map_of (attrs self1) k = map_of (attrs s1) k"
      using that by (simp add: ms get_instances_keeps [OF gi])
    then show ?thesis
      by (simp add: m0 m1 map_add_def split: option.splits)
  qed
  have mk: "map_of (attrs t1) ''masks'' = map_of (attrs s2) ''masks''"
  proof (cases "map_of (rev ad) ''masks''")
    case None
    then show ?thesis by (simp add: m1 ms map_add_def)
  next
    case (Some w)
    then have "map_of (attrs s1) ''masks'' = Some w" by (simp add: m0 map_add_def)
    from get_instances_keeps_masks [OF gi this] Some show ?thesis
      by (simp add: m1 map_add_def)
  qed
  have "get_instances t1 = Inr (di, t1)"
    by (rule get_instances_cached [OF gi _ _ mk]) (simp_all add: dget_def keep)
  then have "prepare rg' mg' config p fs1 self1 =
      Inr (fs1, dset t1 ''data_instances'' di, [TorchLoad ?pp])"
    using p ex assms(2) f ad l1 by (simp add: prepare_def Dataset_load_def)
  then show ?thesis
    by (simp add: self1 dget_dset)
qed

text \<open>
  Claim C6, amended. Let \<open>ignore_preprocessed_dataset\<close> and \<open>disable_dataset_saving\<close>
  both be off, and let \<open>prepare\<close> on a new \<open>Dataset\<close> return. Then a second call with
  the same configuration and partition, and with any feature generators whatever,
  loads the cache file and leaves the file system as it is. On a new \<open>Dataset\<close> it
  returns the same dataset as the first call, \<open>data_instances\<close> included; on the
  dataset the first call returned it gives the same \<open>data_instances\<close>.
\<close>

theorem prepare_idempotent:
  assumes "prepare rg mg config p fs Dataset_init = Inr (fs1, self1, trace1)"
    and "\<not> ignore_preprocessed_dataset config"
    and "\<not> disable_dataset_saving config"
  shows "prepare rg' mg' config p fs1 Dataset_init =
           Inr (fs1, self1, [TorchLoad (preprocessed_path config p)])
       \<and> (\<exists>self2. prepare rg' mg' config p fs1 self1 =
                   Inr (fs1, self2, [TorchLoad (preprocessed_path config p)])
                 \<and> dget self2 ''data_instances'' = dget self1 ''data_instances'')"
  using prepare_again_new [OF assms] prepare_again_same [OF assms] by blast

theorem prepare_idempotent_witness:
  "and_then (prepare example_generator example_generator example_config ''train''
       example_fs Dataset_init) (\<lambda>(fs1, self1, trace1).
     and_then (prepare (\<lambda>s. \<lparr>shape = [], data = []\<rparr>) (\<lambda>s. \<lparr>shape = [], data = []\<rparr>) example_config
       ''train'' fs1 Dataset_init) (\<lambda>(fs2, self2, trace2).
         Inr (self2 = self1, trace2)))
   = Inr (True, [TorchLoad ''data/processed/DNN/train.pt''])"
proof -
  have "\<not> isl (prepare example_generator example_generator example_config ''train''
       example_fs Dataset_init)"
    by code_simp
  then obtain fs1 self1 trace1 where
    r: "prepare example_generator example_generator example_config ''train''
       example_fs Dataset_init = Inr (fs1, self1, trace1)"
    by (cases "prepare example_generator example_generator example_config ''train''
       example_fs Dataset_init") auto
  have c: "\<not> ignore_preprocessed_dataset example_config" "\<not> disable_dataset_saving example_config"
    by (simp_all add: example_config_def)
  show ?thesis
    using prepare_idempotent [OF r c] by (simp add: r example_paths)
qed

text \<open>
  Claim C6 as stated fails when \<open>ignore_preprocessed_dataset\<close> is on: the first call
  writes the cache file, and the second call reads the CSV file and computes the
  features again instead of loading it.
\<close>

theorem prepare_idempotent_counterexample:
  "and_then (prepare example_generator example_generator
          (example_config\<lparr>ignore_preprocessed_dataset := True\<rparr>) ''train'' example_fs Dataset_init)
     (\<lambda>(fs1, self1, trace1).
        and_then (prepare example_generator example_generator
          (example_config\<lparr>ignore_preprocessed_dataset := True\<rparr>) ''train'' fs1 Dataset_init)
     (\<lambda>(fs2, self2, trace2). Inr (trace1, files fs1 ''data/processed/DNN/train.pt'' \<noteq> None, trace2)))
   = Inr ([ReadCsv ''data/train.csv'', TorchSave ''data/processed/DNN/train.pt''], True,
          [ReadCsv ''data/train.csv'', TorchSave ''data/processed/DNN/train.pt''])"
  by code_simp













section \<open>Properties of the GROVER trainer\<close>

lemma get_loss_sum:
  assumes "super_get_loss atom_logits batch = Inr atom_loss"
    and "super_get_loss bond_logits batch = Inr bond_loss"
    and "get_distance_loss config atom_logits bond_logits batch = Inr distance"
  shows "get_loss super_get_loss config [atom_logits, bond_logits] batch =
    Inr (add_scalar (add_scalar atom_loss bond_loss)
           (map_option (\<lambda>d. cfg_dist_coff config * d) distance))"
  using assms by (simp add: get_loss_def)

lemma sum_masked_scalar:
  "sum_list (vals msks) \<noteq> 0 \<Longrightarrow> sum_masked (Some l) msks = Some l"
  by (simp add: sum_masked_def sum_list_const_mult)

lemma view_rows_vals: "view_rows t ks = Inr t' \<Longrightarrow> vals t' = vals t"
  by (auto simp: view_rows_def split: if_splits)

lemma sum_masked_Some: "sum_masked loss msks = Some r \<Longrightarrow> loss = Some r"
  by (auto simp: sum_masked_def sum_list_const_mult split: option.splits if_splits)

lemma mse_loss_Some:
  "mse_loss a b = Inr (Some l) \<Longrightarrow>
   l = sum_list (map2 (\<lambda>x y. (x - y)\<^sup>2) (vals a) (vals b)) / real (length (vals a))"
  by (auto simp: mse_loss_def split: if_splits)

text \<open>
  Whenever the consistency term is a number, it is the mean of the squared differences
  over all entries, whatever the masks are.
\<close>

lemma get_distance_loss_unmasked:
  assumes "get_distance_loss config atom_logits bond_logits batch = Inr (Some r)"
  shows "r = sum_list (map2 (\<lambda>x y. (x - y)\<^sup>2) (vals atom_logits) (vals bond_logits))
                / real (length (vals atom_logits))"
proof -
  from assms obtain x where
    v1': "(if cfg_task_type config = ''classification''
                 \<and> cfg_binary_classification_with_softmax config
              then and_then (view_rows atom_logits [cfg_n_lbs config]) (\<lambda>a.
                   and_then (view_rows bond_logits [cfg_n_lbs config]) (\<lambda>b.
                   and_then (view_rows (batch_masks batch) []) (\<lambda>m. Inr (a, b, m))))
              else Inr (atom_logits, bond_logits, batch_masks batch)) = Inr x" and
    r1: "(\<lambda>(a, b, msks).
      and_then (if cfg_task_type config = ''regression'' \<and> cfg_regression_with_variance config
              then and_then (view_rows a [cfg_n_tasks config, 2]) (\<lambda>a'.
                   and_then (view_rows b [cfg_n_tasks config, 2]) (\<lambda>b'. Inr (a', b')))
              else Inr (a, b)) (\<lambda>(a', b').
      and_then (mse_loss a' b') (\<lambda>loss.
        Inr (sum_masked loss msks)))) x = Inr (Some r)"
    unfolding get_distance_loss_def by (rule and_then_InrE)
  obtain a b msks where x: "x = (a, b, msks)" by (cases x)
  note v1 = v1' [unfolded x]
  from r1 have "and_then (if cfg_task_type config = ''regression'' \<and> cfg_regression_with_variance config
              then and_then (view_rows a [cfg_n_tasks config, 2]) (\<lambda>a'.
                   and_then (view_rows b [cfg_n_tasks config, 2]) (\<lambda>b'. Inr (a', b')))
              else Inr (a, b)) (\<lambda>(a', b').
      and_then (mse_loss a' b') (\<lambda>loss.
        Inr (sum_masked loss msks))) = Inr (Some r)"
    by (simp add: x)
  then obtain y where
    v2': "(if cfg_task_type config = ''regression'' \<and> cfg_regression_with_variance config
              then and_then (view_rows a [cfg_n_tasks config, 2]) (\<lambda>a'.
                   and_then (view_rows b [cfg_n_tasks config, 2]) (\<lambda>b'. Inr (a', b')))
              else Inr (a, b)) = Inr y" and
    r2: "(\<lambda>(a', b'). and_then (mse_loss a' b') (\<lambda>loss. Inr (sum_masked loss msks))) y
          = Inr (Some r)"
    by (rule and_then_InrE)
  obtain a' b' where y: "y = (a', b')" by (cases y)
  note v2 = v2' [unfolded y]
  from r2 have "and_then (mse_loss a' b') (\<lambda>loss. Inr (sum_masked loss msks)) = Inr (Some r)"
    by (simp add: y)
  then obtain loss where m: "mse_loss a' b' = Inr loss" and s: "sum_masked loss msks = Some r"
    by (auto elim: and_then_InrE)
  from v1 have "vals a = vals atom_logits" "vals b = vals bond_logits"
    by (auto split: if_splits elim!: and_then_InrE dest: view_rows_vals)
  moreover from v2 have "vals a' = vals a" "vals b' = vals b"
    by (auto split: if_splits elim!: and_then_InrE dest: view_rows_vals)
  moreover from s have "loss = Some r" by (rule sum_masked_Some)
  ultimately show ?thesis
    using mse_loss_Some [of a' b' r] m by simp
qed

text \<open>
  Claim C1 says that the consistency term is averaged over the valid entries only. On
  the example batch the only valid entry has equal logits, so that average is 0; the
  code returns 2, the mean over both entries, and the loss is 2 more than the two task
  losses.
\<close>

theorem get_distance_loss_ignores_masks:
  "get_distance_loss example_grover_config example_atom_logits example_bond_logits example_batch
     = Inr (Some 2)
   \<and> spec_masked_mse (vals example_atom_logits) (vals example_bond_logits)
        (vals (batch_masks example_batch)) = 0
   \<and> get_loss (\<lambda>logits batch. Inr (Some 0)) example_grover_config
        [example_atom_logits, example_bond_logits] example_batch = Inr (Some 2)"
  by (simp add: get_loss_def get_distance_loss_def mse_loss_def sum_masked_def add_scalar_def
      spec_masked_mse_def example_grover_config_def example_atom_logits_def
      example_bond_logits_def example_batch_def)

end
